theory Spec2Isabelle
  imports Complex_Main
begin

section \<open>Python values, exceptions and the logger\<close>

text \<open>
  The fields of a photopoint are what the alert schema can hold: null, a flag, a number
  or a string. A float is modelled by the real number it stands for. Comparisons,
  \<open>abs\<close> and \<open>max\<close> of floats are exact. An arithmetic operation of the filter gives the
  exact result rounded to a float: the rounding is the parameter \<open>rnd\<close> of the
  collaborators below, and a decimal literal \<open>c\<close> of the source is the float \<open>rnd c\<close>.
  The one operation taken without rounding is the difference of the largest and the
  smallest Julian date of an alert: in binary floating point the difference of two
  numbers within a factor of two of each other is exact. NaN and the infinities are
  outside this model, apart from the division by zero of numpy, which is written out in
  \<open>np_abs_div_gt\<close>.
\<close>

datatype pyval = PNone | PBool bool | PNum real | PStr string

datatype py_error =
    KeyError string
  | IndexError
  | TypeError
  | ValueError
  | LibraryError string

type_synonym 'a py = "py_error + 'a"

definition bind_py :: "'a py \<Rightarrow> ('a \<Rightarrow> 'b py) \<Rightarrow> 'b py" where
  "bind_py m f = (case m of Inl e \<Rightarrow> Inl e | Inr v \<Rightarrow> f v)"

type_synonym photop = "string \<rightharpoonup> pyval"

text \<open>\<open>photop[key]\<close>: a missing key raises KeyError.\<close>

definition getitem :: "photop \<Rightarrow> string \<Rightarrow> pyval py" where
  "getitem photop key = (case photop key of None \<Rightarrow> Inl (KeyError key) | Some v \<Rightarrow> Inr v)"

text \<open>
  A value used as a number (in \<open><\<close>, \<open>>\<close>, \<open>-\<close>, \<open>abs\<close> against a float): None and
  strings raise TypeError, a bool counts as 0 or 1.
\<close>

fun num_of :: "pyval \<Rightarrow> real py" where
  "num_of (PNum x) = Inr x"
| "num_of (PBool b) = Inr (if b then 1 else 0)"
| "num_of PNone = Inl TypeError"
| "num_of (PStr s) = Inl TypeError"

datatype level = INFO | DEBUG

text \<open>A log record: the level and the single entry of the \<open>extra\<close> dictionary.\<close>

type_synonym log_record = "level \<times> string \<times> pyval"

type_synonym logger = "log_record list"

definition info :: "string \<Rightarrow> pyval \<Rightarrow> logger \<Rightarrow> logger" where
  "info key v lg = lg @ [(INFO, key, v)]"

definition debug :: "string \<Rightarrow> pyval \<Rightarrow> logger \<Rightarrow> logger" where
  "debug key v lg = lg @ [(DEBUG, key, v)]"

text \<open>
  A step that may raise, inside a method that threads the logger: the exception
  leaves the method with the logger as it is.
\<close>

definition try_py :: "'a py \<Rightarrow> logger \<Rightarrow> ('a \<Rightarrow> 'b py \<times> logger) \<Rightarrow> 'b py \<times> logger" where
  "try_py m lg k = (case m of Inl e \<Rightarrow> (Inl e, lg) | Inr v \<Rightarrow> k v)"

section \<open>The filter object, the alert and the collaborators\<close>

text \<open>The attributes that \<open>__init__\<close> copies from the configuration (lines 78 to 112).\<close>

record decent_filter =
  on_match_t2_units :: "string list"
  min_ndet :: int
  min_tspan :: real
  max_tspan :: real
  max_fwhm :: real
  max_elong :: real
  max_magdiff :: real
  max_nbad :: int
  min_rb :: real
  min_drb :: real
  min_ssdistnr :: real
  min_gal_lat :: real
  gaia_rs :: real
  gaia_pm_signif :: real
  gaia_plx_signif :: real
  gaia_veto_gmag_min :: real
  gaia_veto_gmag_max :: real
  gaia_excessnoise_sig_max :: real
  ps1_sgveto_rad :: real
  ps1_sgveto_th :: real
  ps1_confusion_rad :: real
  ps1_confusion_sg_tol :: real

text \<open>\<open>InitConfig.MIN_DRB : float = 0.\<close> (line 50), the only field with a default.\<close>

definition MIN_DRB_default :: real where
  "MIN_DRB_default = 0"

text \<open>\<open>self.keys_to_check\<close>, the same tuple in every instance (lines 120 to 123).\<close>

definition keys_to_check :: "string list" where
  "keys_to_check =
     [''fwhm'', ''elong'', ''magdiff'', ''nbad'', ''distpsnr1'', ''sgscore1'', ''distpsnr2'',
      ''sgscore2'', ''distpsnr3'', ''sgscore3'', ''isdiffpos'', ''ra'', ''dec'', ''rb'', ''ssdistnr'']"

text \<open>
  Modelled from the spec: \<open>AmpelAlert\<close> belongs to the host framework. The filter uses
  its photopoints \<open>pps\<close> (the detections, most recent first) and
  \<open>get_values('jd', upper_limits=False)\<close>, the values of a field over the detections
  that carry it.
\<close>

record ampel_alert =
  pps :: "photop list"

definition get_values :: "string \<Rightarrow> ampel_alert \<Rightarrow> pyval list" where
  "get_values key alert = List.map_filter (\<lambda>pp. pp key) (pps alert)"

text \<open>
  A row of the GAIA DR2 table of \<open>is_star_in_gaia\<close>: the columns of \<open>my_keys\<close> that
  the flags read, and \<open>DISTANCE\<close>, the separation in arcsec that astropy computes
  between the transient and the row's \<open>RA\<close>, \<open>Dec\<close>.
\<close>

record gaia_src =
  Mag_G :: real
  PMRA :: real
  ErrPMRA :: real
  PMDec :: real
  ErrPMDec :: real
  Plx :: real
  ErrPlx :: real
  ExcessNoiseSig :: real
  DISTANCE :: real

text \<open>
  The library calls and the floating-point arithmetic, taken as parameters; each call
  may raise.
  \<^item> \<open>galactic_b_deg ra dec\<close> is \<open>SkyCoord(ra, dec, unit='deg').galactic.b.deg\<close>.
  \<^item> \<open>gaia_cone_search ra dec rs\<close> is \<open>SkyCoord(ra, dec, unit='deg')\<close>, the
    \<open>cone_search('GAIADR2', ra.rad, dec.rad, rs)\<close> of the catsHTM client, the table on
    the columns \<open>my_keys\<close> and the \<open>DISTANCE\<close> column (lines 196 to 219).
  \<^item> \<open>rnd x\<close> is the float that the interpreter and numpy give for an operation whose
    exact result is \<open>x\<close>, and for a literal \<open>x\<close>.
  \<^item> \<open>np_exp x\<close> is numpy's \<open>exp\<close> of the float \<open>x\<close>.
\<close>

record astro =
  galactic_b_deg :: "pyval \<Rightarrow> pyval \<Rightarrow> real py"
  gaia_cone_search :: "pyval \<Rightarrow> pyval \<Rightarrow> real \<Rightarrow> gaia_src list py"
  rnd :: "real \<Rightarrow> real"
  np_exp :: "real \<Rightarrow> real"

section \<open>The methods of DecentFilter\<close>

subsection \<open>\<open>_alert_has_keys\<close> (lines 126 to 137)\<close>

fun alert_has_keys_loop :: "string list \<Rightarrow> photop \<Rightarrow> logger \<Rightarrow> bool \<times> logger" where
  "alert_has_keys_loop [] photop lg = (True, lg)"
| "alert_has_keys_loop (el # els) photop lg =
     (case photop el of
        None \<Rightarrow> (False, info ''missing'' (PStr el) lg)
      | Some v \<Rightarrow>
          if v = PNone then (False, info ''isNone'' (PStr el) lg)
          else alert_has_keys_loop els photop lg)"

definition alert_has_keys :: "photop \<Rightarrow> logger \<Rightarrow> bool \<times> logger" where
  "alert_has_keys photop lg = alert_has_keys_loop keys_to_check photop lg"

subsection \<open>\<open>get_galactic_latitude\<close> (lines 140 to 145)\<close>

definition get_galactic_latitude :: "astro \<Rightarrow> photop \<Rightarrow> real py" where
  "get_galactic_latitude env transient =
     bind_py (getitem transient ''ra'') (\<lambda>ra.
     bind_py (getitem transient ''dec'') (\<lambda>dec.
       galactic_b_deg env ra dec))"

subsection \<open>\<open>is_star_in_PS1\<close> (lines 148 to 157)\<close>

text \<open>Python's \<open>and\<close> reads \<open>sgscore1\<close> only when the first comparison is true.\<close>

definition is_star_in_PS1 :: "decent_filter \<Rightarrow> photop \<Rightarrow> bool py" where
  "is_star_in_PS1 self transient =
     bind_py (getitem transient ''distpsnr1'') (\<lambda>v1. bind_py (num_of v1) (\<lambda>distpsnr1.
       if distpsnr1 < ps1_sgveto_rad self
       then bind_py (getitem transient ''sgscore1'') (\<lambda>v2. bind_py (num_of v2) (\<lambda>sgscore1.
              Inr (sgscore1 > ps1_sgveto_th self)))
       else Inr False))"

subsection \<open>\<open>is_confused_in_PS1\<close> (lines 160 to 186)\<close>

text \<open>
  \<open>max(a, b, c)\<close> of three values that are then compared with a float: the three
  items are read first, and anything but three numbers ends in a TypeError.
\<close>

definition max3 :: "real \<Rightarrow> real \<Rightarrow> real \<Rightarrow> real" where
  "max3 a b c = max (max a b) c"

definition is_confused_in_PS1 :: "decent_filter \<Rightarrow> astro \<Rightarrow> photop \<Rightarrow> bool py" where
  "is_confused_in_PS1 self env transient =
     bind_py (getitem transient ''distpsnr1'') (\<lambda>v1.
     bind_py (getitem transient ''distpsnr2'') (\<lambda>v2.
     bind_py (getitem transient ''distpsnr3'') (\<lambda>v3.
     bind_py (num_of v1) (\<lambda>d1. bind_py (num_of v2) (\<lambda>d2. bind_py (num_of v3) (\<lambda>d3.
       let very_close = (max3 d1 d2 d3 < ps1_confusion_rad self) in
       bind_py (getitem transient ''sgscore1'') (\<lambda>w1. bind_py (num_of w1) (\<lambda>sg1.
       bind_py (getitem transient ''sgscore2'') (\<lambda>w2. bind_py (num_of w2) (\<lambda>sg2.
       bind_py (getitem transient ''sgscore3'') (\<lambda>w3. bind_py (num_of w3) (\<lambda>sg3.
         let sg_confused =
               (max3 (abs (rnd env (sg1 - 0.5))) (abs (rnd env (sg2 - 0.5)))
                  (abs (rnd env (sg3 - 0.5))) < ps1_confusion_sg_tol self)
         in Inr (sg_confused \<and> very_close)))))))))))))"

subsection \<open>\<open>is_star_in_gaia\<close> (lines 189 to 247)\<close>

definition DISTANCE_NORM :: "astro \<Rightarrow> gaia_src \<Rightarrow> bool" where
  "DISTANCE_NORM env x =
     (rnd env (rnd env 1.8 +
        rnd env (rnd env 0.6 * np_exp env (rnd env (rnd env (20 - Mag_G x) / rnd env 2.05))))
      > DISTANCE x)"

definition FLAG_PROX :: "decent_filter \<Rightarrow> astro \<Rightarrow> gaia_src \<Rightarrow> bool" where
  "FLAG_PROX self env x =
     (DISTANCE_NORM env x \<and>
      gaia_veto_gmag_min self \<le> Mag_G x \<and> Mag_G x \<le> gaia_veto_gmag_max self)"

text \<open>
  \<open>abs(n / d) > s\<close> on numpy columns: the quotient is rounded; dividing by zero does
  not raise, a nonzero numerator gives an infinity, which exceeds every threshold, and
  0 / 0 gives NaN, which exceeds none.
\<close>

definition np_abs_div_gt :: "astro \<Rightarrow> real \<Rightarrow> real \<Rightarrow> real \<Rightarrow> bool" where
  "np_abs_div_gt env n d s = (if d = 0 then n \<noteq> 0 else \<bar>rnd env (n / d)\<bar> > s)"

definition FLAG_PMRA :: "decent_filter \<Rightarrow> astro \<Rightarrow> gaia_src \<Rightarrow> bool" where
  "FLAG_PMRA self env x = np_abs_div_gt env (PMRA x) (ErrPMRA x) (gaia_pm_signif self)"

definition FLAG_PMDec :: "decent_filter \<Rightarrow> astro \<Rightarrow> gaia_src \<Rightarrow> bool" where
  "FLAG_PMDec self env x = np_abs_div_gt env (PMDec x) (ErrPMDec x) (gaia_pm_signif self)"

definition FLAG_Plx :: "decent_filter \<Rightarrow> astro \<Rightarrow> gaia_src \<Rightarrow> bool" where
  "FLAG_Plx self env x = np_abs_div_gt env (Plx x) (ErrPlx x) (gaia_plx_signif self)"

definition FLAG_Clean :: "decent_filter \<Rightarrow> gaia_src \<Rightarrow> bool" where
  "FLAG_Clean self x = (ExcessNoiseSig x < gaia_excessnoise_sig_max self)"

primrec py_any :: "bool list \<Rightarrow> bool" where
  "py_any [] = False"
| "py_any (b # bs) = (b \<or> py_any bs)"

definition is_star_in_gaia :: "decent_filter \<Rightarrow> astro \<Rightarrow> photop \<Rightarrow> bool py" where
  "is_star_in_gaia self env transient =
     bind_py (getitem transient ''ra'') (\<lambda>ra.
     bind_py (getitem transient ''dec'') (\<lambda>dec.
     bind_py (gaia_cone_search env ra dec (gaia_rs self)) (\<lambda>srcs.
       if length srcs > 0 then
         (let gaia_tab = filter (FLAG_Clean self) (filter (FLAG_PROX self env) srcs) in
          if py_any (map (FLAG_PMRA self env) gaia_tab) \<or>
             py_any (map (FLAG_PMDec self env) gaia_tab) \<or>
             py_any (map (FLAG_Plx self env) gaia_tab)
          then Inr True else Inr False)
       else Inr False)))"

subsection \<open>\<open>apply\<close> (lines 251 to 359)\<close>

text \<open>
  \<open>max(detections_jds) - min(detections_jds)\<close>: an empty tuple raises ValueError,
  and values that are not all numbers end in a TypeError (in \<open>max\<close> or in the
  subtraction).
\<close>

fun nums_of :: "pyval list \<Rightarrow> real list py" where
  "nums_of [] = Inr []"
| "nums_of (v # vs) = bind_py (num_of v) (\<lambda>x. bind_py (nums_of vs) (\<lambda>xs. Inr (x # xs)))"

fun py_max :: "real list \<Rightarrow> real py" where
  "py_max [] = Inl ValueError"
| "py_max (x # xs) = Inr (fold max xs x)"

fun py_min :: "real list \<Rightarrow> real py" where
  "py_min [] = Inl ValueError"
| "py_min (x # xs) = Inr (fold min xs x)"

definition det_tspan_of :: "pyval list \<Rightarrow> real py" where
  "det_tspan_of detections_jds =
     bind_py (nums_of detections_jds) (\<lambda>jds.
     bind_py (py_max jds) (\<lambda>hi.
     bind_py (py_min jds) (\<lambda>lo. Inr (hi - lo))))"

text \<open>The part under the banner ASTRONOMY (lines 322 to 359).\<close>

definition astronomy_cuts ::
  "decent_filter \<Rightarrow> astro \<Rightarrow> photop \<Rightarrow> logger \<Rightarrow> string list option py \<times> logger" where
  "astronomy_cuts self env latest lg =
     try_py (getitem latest ''ssdistnr'') lg (\<lambda>ssdistnr.
     try_py (num_of ssdistnr) lg (\<lambda>d.
     if 0 \<le> d \<and> d < min_ssdistnr self then (Inr None, info ''ssdistnr'' ssdistnr lg) else
     try_py (get_galactic_latitude env latest) lg (\<lambda>b.
     if \<bar>b\<bar> < min_gal_lat self then (Inr None, info ''galPlane'' (PNum \<bar>b\<bar>) lg) else
     try_py (is_star_in_PS1 self latest) lg (\<lambda>star.
     if star then
       try_py (getitem latest ''distpsnr1'') lg (\<lambda>distpsnr1.
         (Inr None, info ''distpsnr1'' distpsnr1 lg)) else
     try_py (is_confused_in_PS1 self env latest) lg (\<lambda>confused.
     if confused then (Inr None, info ''ps1Confusion'' (PBool True) lg) else
     try_py (is_star_in_gaia self env latest) lg (\<lambda>gaia.
     if gaia then (Inr None, info ''gaiaIsStar'' (PBool True) lg) else
     try_py (getitem latest ''candid'') lg (\<lambda>candid.
       (Inr (Some (on_match_t2_units self)), debug ''latestPpId'' candid lg))))))))"

text \<open>The part under the banner IMAGE QUALITY CUTS after the key check (lines 287 to 316).\<close>

definition image_quality_cuts ::
  "decent_filter \<Rightarrow> astro \<Rightarrow> photop \<Rightarrow> logger \<Rightarrow> string list option py \<times> logger" where
  "image_quality_cuts self env latest lg =
     try_py (getitem latest ''isdiffpos'') lg (\<lambda>isdiffpos.
     if isdiffpos = PStr ''f'' \<or> isdiffpos = PStr ''0''
     then (Inr None, info ''isdiffpos'' isdiffpos lg) else
     try_py (getitem latest ''rb'') lg (\<lambda>rb.
     try_py (num_of rb) lg (\<lambda>r.
     if r < min_rb self then (Inr None, info ''rb'' rb lg) else
     try_py (if min_drb self > 0
             then bind_py (getitem latest ''drb'') (\<lambda>drb.
                  bind_py (num_of drb) (\<lambda>x. Inr (x < min_drb self)))
             else Inr False) lg (\<lambda>drb_low.
     if drb_low then
       try_py (getitem latest ''drb'') lg (\<lambda>drb. (Inr None, info ''drb'' drb lg)) else
     try_py (getitem latest ''fwhm'') lg (\<lambda>fwhm.
     try_py (num_of fwhm) lg (\<lambda>f.
     if f > max_fwhm self then (Inr None, info ''fwhm'' fwhm lg) else
     try_py (getitem latest ''elong'') lg (\<lambda>elong.
     try_py (num_of elong) lg (\<lambda>e.
     if e > max_elong self then (Inr None, info ''elong'' elong lg) else
     try_py (getitem latest ''magdiff'') lg (\<lambda>magdiff.
     try_py (num_of magdiff) lg (\<lambda>m.
     if \<bar>m\<bar> > max_magdiff self then (Inr None, info ''magdiff'' magdiff lg) else
     astronomy_cuts self env latest lg))))))))))"

text \<open>
  The whole method (named \<open>apply_alert\<close>, \<open>apply\<close> being a keyword of Isabelle): the
  cut on the history, the key check, then the parts above.
\<close>

definition apply_alert ::
  "decent_filter \<Rightarrow> astro \<Rightarrow> ampel_alert \<Rightarrow> logger \<Rightarrow> string list option py \<times> logger" where
  "apply_alert self env ampel_alert lg =
     (let npp = int (length (pps ampel_alert)) in
      if npp < min_ndet self then (Inr None, info ''nDet'' (PNum (real_of_int npp)) lg) else
      try_py (det_tspan_of (get_values ''jd'' ampel_alert)) lg (\<lambda>det_tspan.
      if \<not> (min_tspan self < det_tspan \<and> det_tspan < max_tspan self)
      then (Inr None, info ''tSpan'' (PNum det_tspan) lg) else
      (case pps ampel_alert of
         [] \<Rightarrow> (Inl IndexError, lg)
       | latest # older \<Rightarrow>
           (case alert_has_keys latest lg of
              (has_keys, lg') \<Rightarrow>
                if \<not> has_keys then (Inr None, lg')
                else image_quality_cuts self env latest lg'))))"

text \<open>
  What the boundary cases below need of the rounding: it is monotone, it leaves a
  float as it is, it commutes with the sign, and 0 and 1/4 are floats. Rounding to the
  nearest float has these properties.
\<close>

definition float64_rounding :: "(real \<Rightarrow> real) \<Rightarrow> bool" where
  "float64_rounding r \<longleftrightarrow>
     mono r \<and> (\<forall>x. r (r x) = r x) \<and> (\<forall>x. r (- x) = - r x) \<and> r 0 = 0 \<and> r (1 / 4) = 1 / 4"

section \<open>The decision as a pipeline of gates\<close>

text \<open>
  The specification describes the filter as an ordered list of gates with a
  short-circuiting evaluator, and its result as a decision. The definitions of this
  section follow that description; they are compared with \<open>apply_alert\<close> below. A
  decision carries the record that the code logs on the way out: the reason of a
  rejection, or the identifier of the latest photopoint with the tags of an acceptance.
\<close>

datatype decision = Rejected log_record | Accepted log_record "string list"

fun returned :: "decision \<Rightarrow> string list option" where
  "returned (Rejected r) = None"
| "returned (Accepted r tags) = Some tags"

fun logged :: "decision \<Rightarrow> log_record" where
  "logged (Rejected r) = r"
| "logged (Accepted r tags) = r"

text \<open>What a call of the method leaves behind for a decision, or for an exception.\<close>

fun emit :: "decision py \<Rightarrow> logger \<Rightarrow> string list option py \<times> logger" where
  "emit (Inl e) lg = (Inl e, lg)"
| "emit (Inr d) lg = (Inr (returned d), lg @ [logged d])"

text \<open>A gate passes (\<open>Inr None\<close>), fails with a reason, or raises.\<close>

type_synonym 'x gate = "'x \<Rightarrow> log_record option py"

fun evaluate_gates :: "'x gate list \<Rightarrow> ('x \<Rightarrow> decision py) \<Rightarrow> 'x \<Rightarrow> decision py" where
  "evaluate_gates [] accept x = accept x"
| "evaluate_gates (g # gs) accept x =
     (case g x of
        Inl e \<Rightarrow> Inl e
      | Inr (Some reason) \<Rightarrow> Inr (Rejected reason)
      | Inr None \<Rightarrow> evaluate_gates gs accept x)"

definition on_latest :: "(photop \<Rightarrow> 'a py) \<Rightarrow> ampel_alert \<Rightarrow> 'a py" where
  "on_latest g alert = (case pps alert of [] \<Rightarrow> Inl IndexError | latest # older \<Rightarrow> g latest)"

text \<open>A gate on one numeric field: reject, with the field as reason, if \<open>bad\<close> holds of it.\<close>

definition num_gate :: "string \<Rightarrow> (real \<Rightarrow> bool) \<Rightarrow> photop gate" where
  "num_gate key bad latest =
     bind_py (getitem latest key) (\<lambda>v. bind_py (num_of v) (\<lambda>x.
       Inr (if bad x then Some (INFO, key, v) else None)))"

text \<open>The first of two gates that fails.\<close>

definition gate_or :: "'x gate \<Rightarrow> 'x gate \<Rightarrow> 'x gate" where
  "gate_or g1 g2 x = (case g1 x of Inr None \<Rightarrow> g2 x | r \<Rightarrow> r)"

text \<open>1. Detection count: reject if \<open>count(alert.detections) < config.min_ndet\<close>.\<close>

definition gate_ndet :: "decent_filter \<Rightarrow> ampel_alert gate" where
  "gate_ndet self alert =
     Inr (if int (length (pps alert)) < min_ndet self
          then Some (INFO, ''nDet'', PNum (real_of_int (int (length (pps alert))))) else None)"

text \<open>2. History span: reject unless \<open>min_tspan < (max(jd) - min(jd)) < max_tspan\<close>.\<close>

definition gate_tspan :: "decent_filter \<Rightarrow> ampel_alert gate" where
  "gate_tspan self alert =
     bind_py (det_tspan_of (get_values ''jd'' alert)) (\<lambda>s.
       Inr (if min_tspan self < s \<and> s < max_tspan self then None
            else Some (INFO, ''tSpan'', PNum s)))"

text \<open>3. Field completeness: every required field is there and is not null.\<close>

definition incomplete :: "photop \<Rightarrow> string \<Rightarrow> bool" where
  "incomplete latest el = (latest el = None \<or> latest el = Some PNone)"

definition gate_keys :: "photop gate" where
  "gate_keys latest =
     (case find (incomplete latest) keys_to_check of
        None \<Rightarrow> Inr None
      | Some el \<Rightarrow>
          Inr (Some (INFO, if latest el = None then ''missing'' else ''isNone'', PStr el)))"

text \<open>4. Sign of flux difference: reject if the flag is one of the two false markers.\<close>

definition gate_isdiffpos :: "photop gate" where
  "gate_isdiffpos latest =
     bind_py (getitem latest ''isdiffpos'') (\<lambda>v.
       Inr (if v = PStr ''f'' \<or> v = PStr ''0'' then Some (INFO, ''isdiffpos'', v) else None))"

text \<open>5. Real-bogus score: reject if \<open>rb < config.min_rb\<close>.\<close>

definition gate_rb :: "decent_filter \<Rightarrow> photop gate" where
  "gate_rb self = num_gate ''rb'' (\<lambda>x. x < min_rb self)"

text \<open>6. Deep real-bogus score: only checked if \<open>config.min_drb > 0\<close>.\<close>

definition gate_drb :: "decent_filter \<Rightarrow> photop gate" where
  "gate_drb self latest =
     (if min_drb self > 0 then num_gate ''drb'' (\<lambda>x. x < min_drb self) latest else Inr None)"

text \<open>7. Image quality: the full width at half maximum, the elongation, the magnitude difference.\<close>

definition gate_image_quality :: "decent_filter \<Rightarrow> photop gate" where
  "gate_image_quality self =
     gate_or (num_gate ''fwhm'' (\<lambda>x. x > max_fwhm self))
       (gate_or (num_gate ''elong'' (\<lambda>x. x > max_elong self))
          (num_gate ''magdiff'' (\<lambda>x. \<bar>x\<bar> > max_magdiff self)))"

text \<open>8. Solar-system object: reject if the distance is non-negative and \<open>< min_dist_to_sso\<close>.\<close>

definition gate_sso :: "decent_filter \<Rightarrow> photop gate" where
  "gate_sso self = num_gate ''ssdistnr'' (\<lambda>x. 0 \<le> x \<and> x < min_ssdistnr self)"

text \<open>9. Galactic latitude: reject if \<open>abs(latitude) < min_gal_lat\<close>.\<close>

definition gate_gal_lat :: "decent_filter \<Rightarrow> astro \<Rightarrow> photop gate" where
  "gate_gal_lat self env latest =
     bind_py (get_galactic_latitude env latest) (\<lambda>b.
       Inr (if \<bar>b\<bar> < min_gal_lat self then Some (INFO, ''galPlane'', PNum \<bar>b\<bar>) else None))"

text \<open>10. Local catalog star veto.\<close>

definition gate_ps1_star :: "decent_filter \<Rightarrow> photop gate" where
  "gate_ps1_star self latest =
     bind_py (is_star_in_PS1 self latest) (\<lambda>star.
       if star then bind_py (getitem latest ''distpsnr1'') (\<lambda>v. Inr (Some (INFO, ''distpsnr1'', v)))
       else Inr None)"

text \<open>11. Local catalog confusion veto.\<close>

definition gate_ps1_confusion :: "decent_filter \<Rightarrow> astro \<Rightarrow> photop gate" where
  "gate_ps1_confusion self env latest =
     bind_py (is_confused_in_PS1 self env latest) (\<lambda>confused.
       Inr (if confused then Some (INFO, ''ps1Confusion'', PBool True) else None))"

text \<open>12. Remote catalog (GAIA) star veto.\<close>

definition gate_gaia :: "decent_filter \<Rightarrow> astro \<Rightarrow> photop gate" where
  "gate_gaia self env latest =
     bind_py (is_star_in_gaia self env latest) (\<lambda>star.
       Inr (if star then Some (INFO, ''gaiaIsStar'', PBool True) else None))"

text \<open>13. Otherwise accept, with the configured tags.\<close>

definition accept_latest :: "decent_filter \<Rightarrow> photop \<Rightarrow> decision py" where
  "accept_latest self latest =
     bind_py (getitem latest ''candid'') (\<lambda>candid.
       Inr (Accepted (DEBUG, ''latestPpId'', candid) (on_match_t2_units self)))"

definition accept :: "decent_filter \<Rightarrow> ampel_alert \<Rightarrow> decision py" where
  "accept self = on_latest (accept_latest self)"

text \<open>The gates on the latest photopoint, 3 to 12, and all twelve gates on the alert.\<close>

definition latest_gates :: "decent_filter \<Rightarrow> astro \<Rightarrow> photop gate list" where
  "latest_gates self env =
     [gate_keys,
      gate_isdiffpos,
      gate_rb self,
      gate_drb self,
      gate_image_quality self,
      gate_sso self,
      gate_gal_lat self env,
      gate_ps1_star self,
      gate_ps1_confusion self env,
      gate_gaia self env]"

definition decent_gates :: "decent_filter \<Rightarrow> astro \<Rightarrow> ampel_alert gate list" where
  "decent_gates self env =
     gate_ndet self # gate_tspan self # map on_latest (latest_gates self env)"

definition evaluate :: "decent_filter \<Rightarrow> astro \<Rightarrow> ampel_alert \<Rightarrow> decision py" where
  "evaluate self env alert = evaluate_gates (decent_gates self env) (accept self) alert"

text \<open>
  One gate in front of the rest of a call: what the call leaves behind when the gate
  raises, fails or passes.
\<close>

definition gate_step ::
  "log_record option py \<Rightarrow> logger \<Rightarrow> string list option py \<times> logger \<Rightarrow>
   string list option py \<times> logger" where
  "gate_step r lg rest =
     (case r of
        Inl e \<Rightarrow> (Inl e, lg)
      | Inr (Some reason) \<Rightarrow> (Inr None, lg @ [reason])
      | Inr None \<Rightarrow> rest)"

text \<open>A gate passes on an alert.\<close>

definition passes :: "'x gate \<Rightarrow> 'x \<Rightarrow> bool" where
  "passes g x = (g x = Inr None)"

section \<open>The filter as an object in a store\<close>

text \<open>
  Between two calls the interpreter keeps the list objects, the filter object and the
  records of the logger. The filter object holds its thresholds and, for
  \<open>on_match_t2_units\<close>, the address of the list that \<open>__init__\<close> built (line 78).
  \<open>apply\<close> returns that list itself, not a copy (line 359): the caller and the filter
  then hold the same object.
\<close>

type_synonym addr = nat

record world =
  lists :: "addr \<Rightarrow> string list"
  attrs :: decent_filter
  on_match_ref :: addr
  records :: logger

text \<open>
  The attributes as a call reads them: \<open>on_match_t2_units\<close> is the content of the list
  that the filter refers to (the field of that name in \<open>attrs\<close> is not read).
\<close>

definition self_of :: "world \<Rightarrow> decent_filter" where
  "self_of w = (attrs w)\<lparr>on_match_t2_units := lists w (on_match_ref w)\<rparr>"




section \<open>A configuration, an alert and two catalogues\<close>

definition example_filter :: decent_filter where
  "example_filter =
     \<lparr> on_match_t2_units = [''T2SNCosmo'', ''T2CatalogMatch''],
       min_ndet = 2, min_tspan = 0, max_tspan = 5,
       max_fwhm = 5.5, max_elong = 1.4, max_magdiff = 1, max_nbad = 0,
       min_rb = 0.3, min_drb = MIN_DRB_default,
       min_ssdistnr = 20, min_gal_lat = 14,
       gaia_rs = 20, gaia_pm_signif = 5, gaia_plx_signif = 3,
       gaia_veto_gmag_min = 9, gaia_veto_gmag_max = 20, gaia_excessnoise_sig_max = 999,
       ps1_sgveto_rad = 1, ps1_sgveto_th = 0.8,
       ps1_confusion_rad = 3, ps1_confusion_sg_tol = 0.1 \<rparr>"

definition example_latest :: photop where
  "example_latest =
     map_of
       [(''candid'', PNum 2), (''jd'', PNum 2458001.5),
        (''fwhm'', PNum 2), (''elong'', PNum 1.1), (''magdiff'', PNum 0.1), (''nbad'', PNum 0),
        (''distpsnr1'', PNum 5), (''sgscore1'', PNum 0.2),
        (''distpsnr2'', PNum 8), (''sgscore2'', PNum 0.9),
        (''distpsnr3'', PNum 10), (''sgscore3'', PNum 0.5),
        (''isdiffpos'', PStr ''t''), (''ra'', PNum 150), (''dec'', PNum 30),
        (''rb'', PNum 0.6), (''ssdistnr'', PNum (- 999))]"

definition example_older :: photop where
  "example_older = map_of [(''candid'', PNum 1), (''jd'', PNum 2458000.5)]"

definition example_alert :: ampel_alert where
  "example_alert = \<lparr> pps = [example_latest, example_older] \<rparr>"

text \<open>
  A catalogue with no source around the alert. In the collaborators of the examples
  no operation has a rounding error.
\<close>

definition empty_sky :: astro where
  "empty_sky =
     \<lparr> galactic_b_deg = (\<lambda>ra dec. Inr 50),
       gaia_cone_search = (\<lambda>ra dec rs. Inr []),
       rnd = (\<lambda>x. x), np_exp = exp \<rparr>"

text \<open>
  One source at 1 arcsec with a proper motion in right ascension of ten times its
  error, no excess noise, and the given magnitude.
\<close>

definition moving_source :: "real \<Rightarrow> gaia_src" where
  "moving_source g =
     \<lparr> Mag_G = g, PMRA = 10, ErrPMRA = 1, PMDec = 0, ErrPMDec = 1, Plx = 0, ErrPlx = 1,
       ExcessNoiseSig = 0, DISTANCE = 1 \<rparr>"

definition one_source_sky :: "gaia_src \<Rightarrow> astro" where
  "one_source_sky src =
     \<lparr> galactic_b_deg = (\<lambda>ra dec. Inr 50),
       gaia_cone_search = (\<lambda>ra dec rs. Inr [src]),
       rnd = (\<lambda>x. x), np_exp = exp \<rparr>"

text \<open>The same alert with a real-bogus score of 0.1 on the latest detection.\<close>

definition low_rb_alert :: ampel_alert where
  "low_rb_alert = \<lparr> pps = [example_latest(''rb'' \<mapsto> PNum 0.1), example_older] \<rparr>"

text \<open>Collaborators that are out of order: every call raises.\<close>

definition broken_sky :: astro where
  "broken_sky =
     \<lparr> galactic_b_deg = (\<lambda>ra dec. Inl (LibraryError ''astropy'')),
       gaia_cone_search = (\<lambda>ra dec rs. Inl (LibraryError ''catsHTM'')),
       rnd = (\<lambda>x. x), np_exp = exp \<rparr>"

text \<open>
  Two variants of the latest detection for the confusion veto: three catalogue sources
  at distance 0 with scores 0.5 each, and with scores 0.1, 0.9 and 0.5.
\<close>

definition confused_latest :: photop where
  "confused_latest =
     example_latest(''distpsnr1'' \<mapsto> PNum 0, ''distpsnr2'' \<mapsto> PNum 0, ''distpsnr3'' \<mapsto> PNum 0,
       ''sgscore1'' \<mapsto> PNum 0.5, ''sgscore2'' \<mapsto> PNum 0.5, ''sgscore3'' \<mapsto> PNum 0.5)"

definition split_latest :: photop where
  "split_latest =
     example_latest(''distpsnr1'' \<mapsto> PNum 0, ''distpsnr2'' \<mapsto> PNum 0, ''distpsnr3'' \<mapsto> PNum 0,
       ''sgscore1'' \<mapsto> PNum 0.1, ''sgscore2'' \<mapsto> PNum 0.9, ''sgscore3'' \<mapsto> PNum 0.5)"

text \<open>
  The alert with a solar-system object at distance 0 of the latest detection, and with
  the distance \<open>-1\<close> that stands for no object nearby.
\<close>

definition sso_latest :: "real \<Rightarrow> photop" where
  "sso_latest d = example_latest(''ssdistnr'' \<mapsto> PNum d)"

definition sso_alert :: "real \<Rightarrow> ampel_alert" where
  "sso_alert d = \<lparr> pps = [sso_latest d, example_older] \<rparr>"

text \<open>The alert with its latest detection \<open>s\<close> days after the older one.\<close>

definition span_latest :: "real \<Rightarrow> photop" where
  "span_latest s = example_latest(''jd'' \<mapsto> PNum (2458000.5 + s))"

definition span_alert :: "real \<Rightarrow> ampel_alert" where
  "span_alert s = \<lparr> pps = [span_latest s, example_older] \<rparr>"

text \<open>The alert without \<open>fwhm\<close> on the latest detection, and with a null \<open>ssdistnr\<close>.\<close>

definition missing_latest :: photop where
  "missing_latest = example_latest(''fwhm'' := None)"

definition missing_alert :: ampel_alert where
  "missing_alert = \<lparr> pps = [missing_latest, example_older] \<rparr>"

definition null_latest :: photop where
  "null_latest = example_latest(''ssdistnr'' \<mapsto> PNone)"

definition null_alert :: ampel_alert where
  "null_alert = \<lparr> pps = [null_latest, example_older] \<rparr>"

text \<open>The configuration with the deep-real-bogus gate enabled.\<close>

definition drb_filter :: decent_filter where
  "drb_filter = example_filter\<lparr>min_drb := 0.5\<rparr>"



section \<open>Evaluation rules\<close>

lemma bind_py_simps [simp]:
  "bind_py (Inl e) f = Inl e"
  "bind_py (Inr v) f = f v"
  by (simp_all add: bind_py_def)

lemma try_py_simps [simp]:
  "try_py (Inl e) lg k = (Inl e, lg)"
  "try_py (Inr v) lg k = k v"
  by (simp_all add: try_py_def)

lemma getitem_simps [simp]:
  "photop key = None \<Longrightarrow> getitem photop key = Inl (KeyError key)"
  "photop key = Some v \<Longrightarrow> getitem photop key = Inr v"
  by (simp_all add: getitem_def)

section \<open>The method is the pipeline\<close>

lemma gate_step_simps [simp]:
  "gate_step (Inl e) lg rest = (Inl e, lg)"
  "gate_step (Inr (Some reason)) lg rest = (Inr None, lg @ [reason])"
  "gate_step (Inr None) lg rest = rest"
  by (simp_all add: gate_step_def)

lemma emit_evaluate_Cons:
  "emit (evaluate_gates (g # gs) acc x) lg = gate_step (g x) lg (emit (evaluate_gates gs acc x) lg)"
  by (cases "g x") (auto split: option.splits)

lemma alert_has_keys_loop_find:
  "alert_has_keys_loop ks p lg =
     (case find (incomplete p) ks of
        None \<Rightarrow> (True, lg)
      | Some el \<Rightarrow> (False, lg @ [(INFO, if p el = None then ''missing'' else ''isNone'', PStr el)]))"
  by (induction ks) (auto simp: incomplete_def info_def split: option.splits)

lemma num_gate_chunk:
  "try_py (getitem latest key) lg (\<lambda>v. try_py (num_of v) lg (\<lambda>x.
     if bad x then (Inr None, info key v lg) else rest))
   = gate_step (num_gate key bad latest) lg rest"
proof (cases "getitem latest key")
  case (Inl e)
  then show ?thesis by (simp add: num_gate_def)
next
  case (Inr v)
  then show ?thesis by (cases "num_of v") (simp_all add: num_gate_def info_def)
qed

lemma gate_or_chunk:
  "gate_step (g1 x) lg (gate_step (g2 x) lg rest) = gate_step (gate_or g1 g2 x) lg rest"
  by (cases "g1 x") (auto simp: gate_or_def split: option.splits)

lemma gal_lat_chunk:
  "try_py (get_galactic_latitude env latest) lg (\<lambda>b.
     if \<bar>b\<bar> < min_gal_lat self then (Inr None, info ''galPlane'' (PNum \<bar>b\<bar>) lg) else rest)
   = gate_step (gate_gal_lat self env latest) lg rest"
  by (cases "get_galactic_latitude env latest") (simp_all add: gate_gal_lat_def info_def)

lemma ps1_star_chunk:
  "try_py (is_star_in_PS1 self latest) lg (\<lambda>star.
     if star then try_py (getitem latest ''distpsnr1'') lg (\<lambda>distpsnr1.
         (Inr None, info ''distpsnr1'' distpsnr1 lg)) else rest)
   = gate_step (gate_ps1_star self latest) lg rest"
proof (cases "is_star_in_PS1 self latest")
  case (Inl e)
  then show ?thesis by (simp add: gate_ps1_star_def)
next
  case (Inr star)
  then show ?thesis
    by (cases "getitem latest ''distpsnr1''") (simp_all add: gate_ps1_star_def info_def)
qed

lemma ps1_confusion_chunk:
  "try_py (is_confused_in_PS1 self env latest) lg (\<lambda>confused.
     if confused then (Inr None, info ''ps1Confusion'' (PBool True) lg) else rest)
   = gate_step (gate_ps1_confusion self env latest) lg rest"
  by (cases "is_confused_in_PS1 self env latest") (simp_all add: gate_ps1_confusion_def info_def)

lemma gaia_chunk:
  "try_py (is_star_in_gaia self env latest) lg (\<lambda>gaia.
     if gaia then (Inr None, info ''gaiaIsStar'' (PBool True) lg) else rest)
   = gate_step (gate_gaia self env latest) lg rest"
  by (cases "is_star_in_gaia self env latest") (simp_all add: gate_gaia_def info_def)

lemma accept_chunk:
  "try_py (getitem latest ''candid'') lg (\<lambda>candid.
       (Inr (Some (on_match_t2_units self)), debug ''latestPpId'' candid lg))
   = emit (accept_latest self latest) lg"
  by (cases "getitem latest ''candid''") (simp_all add: accept_latest_def debug_def)

lemma astronomy_cuts_gates:
  "astronomy_cuts self env latest lg =
     emit (evaluate_gates [gate_sso self, gate_gal_lat self env, gate_ps1_star self,
             gate_ps1_confusion self env, gate_gaia self env] (accept_latest self) latest) lg"
  unfolding astronomy_cuts_def gate_sso_def
  by (simp only: num_gate_chunk gal_lat_chunk ps1_star_chunk ps1_confusion_chunk gaia_chunk
      accept_chunk emit_evaluate_Cons evaluate_gates.simps(1))

lemma isdiffpos_chunk:
  "try_py (getitem latest ''isdiffpos'') lg (\<lambda>isdiffpos.
     if isdiffpos = PStr ''f'' \<or> isdiffpos = PStr ''0''
     then (Inr None, info ''isdiffpos'' isdiffpos lg) else rest)
   = gate_step (gate_isdiffpos latest) lg rest"
  by (cases "getitem latest ''isdiffpos''") (simp_all add: gate_isdiffpos_def info_def)

lemma drb_chunk:
  "try_py (if min_drb self > 0
           then bind_py (getitem latest ''drb'') (\<lambda>drb.
                bind_py (num_of drb) (\<lambda>x. Inr (x < min_drb self)))
           else Inr False) lg (\<lambda>drb_low.
     if drb_low then
       try_py (getitem latest ''drb'') lg (\<lambda>drb. (Inr None, info ''drb'' drb lg)) else rest)
   = gate_step (gate_drb self latest) lg rest"
proof (cases "min_drb self > 0")
  case False
  then show ?thesis by (simp add: gate_drb_def)
next
  case True
  show ?thesis
  proof (cases "getitem latest ''drb''")
    case (Inl e)
    with True show ?thesis by (simp add: gate_drb_def num_gate_def)
  next
    case (Inr v)
    with True show ?thesis
      by (cases "num_of v") (simp_all add: gate_drb_def num_gate_def info_def)
  qed
qed

lemma image_quality_chunk:
  "gate_step (num_gate ''fwhm'' (\<lambda>x. x > max_fwhm self) latest) lg
     (gate_step (num_gate ''elong'' (\<lambda>x. x > max_elong self) latest) lg
        (gate_step (num_gate ''magdiff'' (\<lambda>x. \<bar>x\<bar> > max_magdiff self) latest) lg rest))
   = gate_step (gate_image_quality self latest) lg rest"
  by (simp only: gate_or_chunk gate_image_quality_def)

lemma image_quality_cuts_gates:
  "image_quality_cuts self env latest lg =
     emit (evaluate_gates [gate_isdiffpos, gate_rb self, gate_drb self, gate_image_quality self,
             gate_sso self, gate_gal_lat self env, gate_ps1_star self,
             gate_ps1_confusion self env, gate_gaia self env] (accept_latest self) latest) lg"
  unfolding image_quality_cuts_def gate_rb_def
  by (simp only: num_gate_chunk isdiffpos_chunk drb_chunk image_quality_chunk astronomy_cuts_gates
      emit_evaluate_Cons)

lemma keys_chunk:
  "(case alert_has_keys latest lg of
      (has_keys, lg') \<Rightarrow> if \<not> has_keys then (Inr None, lg') else rest lg')
   = gate_step (gate_keys latest) lg (rest lg)"
  by (simp add: alert_has_keys_def alert_has_keys_loop_find gate_keys_def split: option.splits)

lemma evaluate_gates_on_latest:
  "pps alert = latest # older \<Longrightarrow>
   evaluate_gates (map on_latest gs) (on_latest acc) alert = evaluate_gates gs acc latest"
  by (induction gs) (simp_all add: on_latest_def split: sum.splits option.splits)

lemma ndet_chunk:
  "(if int (length (pps alert)) < min_ndet self
    then (Inr None, info ''nDet'' (PNum (real_of_int (int (length (pps alert))))) lg) else rest)
   = gate_step (gate_ndet self alert) lg rest"
  by (simp add: gate_ndet_def info_def)

lemma tspan_chunk:
  "try_py (det_tspan_of (get_values ''jd'' alert)) lg (\<lambda>det_tspan.
     if \<not> (min_tspan self < det_tspan \<and> det_tspan < max_tspan self)
     then (Inr None, info ''tSpan'' (PNum det_tspan) lg) else rest)
   = gate_step (gate_tspan self alert) lg rest"
  by (cases "det_tspan_of (get_values ''jd'' alert)") (auto simp: gate_tspan_def info_def)

lemma latest_cuts_gates:
  "(case pps alert of
      [] \<Rightarrow> (Inl IndexError, lg)
    | latest # older \<Rightarrow>
        (case alert_has_keys latest lg of
           (has_keys, lg') \<Rightarrow>
             if \<not> has_keys then (Inr None, lg')
             else image_quality_cuts self env latest lg'))
   = emit (evaluate_gates (map on_latest (latest_gates self env)) (accept self) alert) lg"
proof (cases "pps alert")
  case Nil
  then show ?thesis by (simp add: on_latest_def latest_gates_def)
next
  case (Cons latest older)
  have "emit (evaluate_gates (latest_gates self env) (accept_latest self) latest) lg
        = gate_step (gate_keys latest) lg (image_quality_cuts self env latest lg)"
    unfolding latest_gates_def by (simp only: emit_evaluate_Cons image_quality_cuts_gates)
  then show ?thesis
    by (simp only: accept_def evaluate_gates_on_latest [OF Cons] Cons list.case keys_chunk)
qed

lemma apply_alert_evaluate:
  "apply_alert self env alert lg = emit (evaluate self env alert) lg"
  unfolding apply_alert_def Let_def evaluate_def decent_gates_def
  by (simp only: ndet_chunk tspan_chunk latest_cuts_gates emit_evaluate_Cons)

section \<open>Properties of the evaluator\<close>

lemma evaluate_gates_pass:
  "\<forall>g \<in> set gs. passes g x \<Longrightarrow> evaluate_gates gs acc x = acc x"
  by (induction gs) (simp_all add: passes_def)

lemma evaluate_gates_reject:
  "\<forall>g \<in> set gs1. passes g x \<Longrightarrow> g x = Inr (Some reason) \<Longrightarrow>
   evaluate_gates (gs1 @ g # gs2) acc x = Inr (Rejected reason)"
  by (induction gs1) (simp_all add: passes_def)

lemma evaluate_gates_reject_nth:
  assumes "k < length gs" and "\<forall>g \<in> set (take k gs). passes g x"
    and "(gs ! k) x = Inr (Some reason)"
  shows "evaluate_gates gs acc x = Inr (Rejected reason)"
proof -
  have "gs = take k gs @ gs ! k # drop (Suc k) gs"
    using assms(1) by (simp add: id_take_nth_drop)
  then have "evaluate_gates gs acc x = evaluate_gates (take k gs @ gs ! k # drop (Suc k) gs) acc x"
    by simp
  also have "\<dots> = Inr (Rejected reason)"
    using assms(2,3) by (rule evaluate_gates_reject)
  finally show ?thesis .
qed

lemma evaluate_gates_Accepted:
  "evaluate_gates gs acc x = Inr (Accepted r tags) \<Longrightarrow>
   (\<forall>g \<in> set gs. passes g x) \<and> acc x = Inr (Accepted r tags)"
  by (induction gs) (auto simp: passes_def split: sum.splits option.splits)

lemma accept_tags:
  "accept self alert = Inr d \<Longrightarrow> \<exists>r. d = Accepted r (on_match_t2_units self)"
  by (cases "pps alert"; cases "getitem (hd (pps alert)) ''candid''")
     (auto simp: accept_def on_latest_def accept_latest_def)

lemma fst_emit_Some:
  "fst (emit d lg) = Inr (Some tags) \<Longrightarrow> \<exists>r. d = Inr (Accepted r tags)"
  by (cases d; cases "projr d") auto

lemma gate_gal_lat_catalogue:
  "gate_gal_lat self (env\<lparr>gaia_cone_search := cs\<rparr>) = gate_gal_lat self env"
  by (rule ext) (simp add: gate_gal_lat_def get_galactic_latitude_def)

lemma gate_ps1_confusion_catalogue:
  "gate_ps1_confusion self (env\<lparr>gaia_cone_search := cs\<rparr>) = gate_ps1_confusion self env"
  by (rule ext) (simp add: gate_ps1_confusion_def is_confused_in_PS1_def)

lemma decent_gates_catalogue:
  assumes "k < 11"
  shows "take k (decent_gates self (env\<lparr>gaia_cone_search := cs\<rparr>)) = take k (decent_gates self env)"
    and "decent_gates self (env\<lparr>gaia_cone_search := cs\<rparr>) ! k = decent_gates self env ! k"
proof -
  define front where "front = gate_ndet self # gate_tspan self #
     map on_latest [gate_keys, gate_isdiffpos, gate_rb self, gate_drb self,
       gate_image_quality self, gate_sso self, gate_gal_lat self env, gate_ps1_star self,
       gate_ps1_confusion self env]"
  have len: "length front = 11" by (simp add: front_def)
  have a: "decent_gates self e = front @ [on_latest (gate_gaia self e)]"
    if "gate_gal_lat self e = gate_gal_lat self env"
      and "gate_ps1_confusion self e = gate_ps1_confusion self env" for e
    using that by (simp add: decent_gates_def latest_gates_def front_def)
  have 1: "decent_gates self env = front @ [on_latest (gate_gaia self env)]"
    by (rule a) simp_all
  have 2: "decent_gates self (env\<lparr>gaia_cone_search := cs\<rparr>)
           = front @ [on_latest (gate_gaia self (env\<lparr>gaia_cone_search := cs\<rparr>))]"
    by (rule a) (rule gate_gal_lat_catalogue, rule gate_ps1_confusion_catalogue)
  show "take k (decent_gates self (env\<lparr>gaia_cone_search := cs\<rparr>)) = take k (decent_gates self env)"
    using assms len by (simp add: 1 2)
  show "decent_gates self (env\<lparr>gaia_cone_search := cs\<rparr>) ! k = decent_gates self env ! k"
    using assms len by (simp add: 1 2 nth_append)
qed

lemma length_decent_gates: "length (decent_gates self env) = 12"
  by (simp add: decent_gates_def latest_gates_def)

lemmas gate_defs =
  evaluate_def decent_gates_def latest_gates_def on_latest_def passes_def
  gate_ndet_def gate_tspan_def gate_keys_def keys_to_check_def incomplete_def gate_isdiffpos_def
  gate_rb_def num_gate_def gate_drb_def gate_image_quality_def gate_or_def gate_sso_def
  gate_gal_lat_def gate_ps1_star_def gate_ps1_confusion_def gate_gaia_def
  accept_def accept_latest_def

lemmas method_defs =
  get_values_def det_tspan_of_def get_galactic_latitude_def is_star_in_PS1_def
  is_confused_in_PS1_def max3_def is_star_in_gaia_def

lemmas example_defs =
  example_filter_def MIN_DRB_default_def example_alert_def low_rb_alert_def
  example_latest_def example_older_def empty_sky_def broken_sky_def

section \<open>The claims\<close>

text \<open>
  C1. \<open>apply\<close> runs the gates in the order of the specification (the list
  \<open>decent_gates\<close>, then the accepting step 13). If the gates before the \<open>k\<close>-th pass
  and the \<open>k\<close>-th fails, the call returns None and logs the reason of that gate,
  whatever the later gates would do; when the failing gate comes before the GAIA gate
  the result is the same for every catalogue, which is not queried. If all twelve gates
  pass, the call returns \<open>on_match_t2_units\<close> (and logs the identifier of the latest
  photopoint), and it returns a set of tags only in that case.
\<close>

theorem apply_alert_gates_in_order:
  "(\<forall>k reason.
      k < length (decent_gates self env) \<and>
      (\<forall>g \<in> set (take k (decent_gates self env)). passes g alert) \<and>
      (decent_gates self env ! k) alert = Inr (Some reason) \<longrightarrow>
        apply_alert self env alert lg = (Inr None, lg @ [reason]) \<and>
        (k < 11 \<longrightarrow> (\<forall>cs. apply_alert self (env\<lparr>gaia_cone_search := cs\<rparr>) alert lg
                            = (Inr None, lg @ [reason]))))
   \<and> (\<forall>latest older candid.
        (\<forall>g \<in> set (decent_gates self env). passes g alert) \<and>
        pps alert = latest # older \<and> latest ''candid'' = Some candid \<longrightarrow>
          apply_alert self env alert lg
            = (Inr (Some (on_match_t2_units self)), lg @ [(DEBUG, ''latestPpId'', candid)]))
   \<and> (\<forall>tags. fst (apply_alert self env alert lg) = Inr (Some tags) \<longrightarrow>
          tags = on_match_t2_units self \<and> (\<forall>g \<in> set (decent_gates self env). passes g alert))
   \<and> apply_alert self env alert lg
        = emit (evaluate_gates (decent_gates self env) (accept self) alert) lg"
proof (intro conjI allI impI)
  show ref: "apply_alert self env alert lg
        = emit (evaluate_gates (decent_gates self env) (accept self) alert) lg"
    by (simp add: apply_alert_evaluate evaluate_def)
next
  fix k reason
  assume h: "k < length (decent_gates self env) \<and>
      (\<forall>g \<in> set (take k (decent_gates self env)). passes g alert) \<and>
      (decent_gates self env ! k) alert = Inr (Some reason)"
  then have "evaluate self env alert = Inr (Rejected reason)"
    unfolding evaluate_def by (intro evaluate_gates_reject_nth [of k]) simp_all
  then show "apply_alert self env alert lg = (Inr None, lg @ [reason])"
    by (simp add: apply_alert_evaluate)
  fix cs
  assume k: "k < 11"
  let ?env = "env\<lparr>gaia_cone_search := cs\<rparr>"
  have "evaluate self ?env alert = Inr (Rejected reason)"
    unfolding evaluate_def
    using h k by (intro evaluate_gates_reject_nth [of k])
      (simp_all add: decent_gates_catalogue length_decent_gates)
  then show "apply_alert self ?env alert lg = (Inr None, lg @ [reason])"
    by (simp add: apply_alert_evaluate)
next
  fix latest older candid
  assume h: "(\<forall>g \<in> set (decent_gates self env). passes g alert) \<and>
        pps alert = latest # older \<and> latest ''candid'' = Some candid"
  then have "evaluate self env alert = accept self alert"
    unfolding evaluate_def by (intro evaluate_gates_pass) simp
  also have "\<dots> = Inr (Accepted (DEBUG, ''latestPpId'', candid) (on_match_t2_units self))"
    using h by (simp add: accept_def on_latest_def accept_latest_def)
  finally show "apply_alert self env alert lg
            = (Inr (Some (on_match_t2_units self)), lg @ [(DEBUG, ''latestPpId'', candid)])"
    by (simp add: apply_alert_evaluate)
next
  fix tags
  assume "fst (apply_alert self env alert lg) = Inr (Some tags)"
  then obtain r where r: "evaluate self env alert = Inr (Accepted r tags)"
    using fst_emit_Some [of "evaluate self env alert" lg tags] by (auto simp: apply_alert_evaluate)
  then have all: "\<forall>g \<in> set (decent_gates self env). passes g alert"
    and acc: "accept self alert = Inr (Accepted r tags)"
    using evaluate_gates_Accepted [of "decent_gates self env" "accept self" alert r tags]
    by (simp_all add: evaluate_def)
  from accept_tags [OF acc] show "tags = on_match_t2_units self" by simp
  from all show "\<forall>g \<in> set (decent_gates self env). passes g alert" .
qed

theorem apply_alert_gates_in_order_witness:
  "(4 < length (decent_gates example_filter broken_sky) \<and>
    list_all (\<lambda>g. passes g low_rb_alert) (take 4 (decent_gates example_filter broken_sky)) \<and>
    (decent_gates example_filter broken_sky ! 4) low_rb_alert = Inr (Some (INFO, ''rb'', PNum 0.1))) \<and>
   apply_alert example_filter broken_sky low_rb_alert [] = (Inr None, [(INFO, ''rb'', PNum 0.1)]) \<and>
   (list_all (\<lambda>g. passes g example_alert) (decent_gates example_filter empty_sky) \<and>
    pps example_alert = example_latest # [example_older] \<and>
    example_latest ''candid'' = Some (PNum 2)) \<and>
   apply_alert example_filter empty_sky example_alert []
     = (Inr (Some [''T2SNCosmo'', ''T2CatalogMatch'']), [(DEBUG, ''latestPpId'', PNum 2)])"
proof -
  have h1: "4 < length (decent_gates example_filter broken_sky) \<and>
    (\<forall>g \<in> set (take 4 (decent_gates example_filter broken_sky)). passes g low_rb_alert) \<and>
    (decent_gates example_filter broken_sky ! 4) low_rb_alert = Inr (Some (INFO, ''rb'', PNum 0.1))"
    by (simp add: gate_defs method_defs example_defs)
  have h2: "(\<forall>g \<in> set (decent_gates example_filter empty_sky). passes g example_alert) \<and>
    pps example_alert = example_latest # [example_older] \<and>
    example_latest ''candid'' = Some (PNum 2)"
    by (simp add: gate_defs method_defs example_defs)
  have t: "on_match_t2_units example_filter = [''T2SNCosmo'', ''T2CatalogMatch'']"
    by (simp add: example_filter_def)
  from h1 apply_alert_gates_in_order [of example_filter broken_sky low_rb_alert "[]"]
  have r1: "apply_alert example_filter broken_sky low_rb_alert [] = (Inr None, [] @ [(INFO, ''rb'', PNum 0.1)])"
    by blast
  from h2 apply_alert_gates_in_order [of example_filter empty_sky example_alert "[]"]
  have r2: "apply_alert example_filter empty_sky example_alert []
     = (Inr (Some (on_match_t2_units example_filter)), [] @ [(DEBUG, ''latestPpId'', PNum 2)])"
    by blast
  from h1 h2 r1 r2 t show ?thesis by (simp add: list_all_iff)
qed

section \<open>The vetoes\<close>

lemma max3_less_iff: "max3 a b c < r \<longleftrightarrow> a < r \<and> b < r \<and> c < r"
  by (auto simp: max3_def)

lemma max3_Max: "max3 a b c = Max {a, b, c}"
  by (simp add: max3_def max.commute max.left_commute)

lemma is_confused_in_PS1_nums:
  assumes "transient ''distpsnr1'' = Some (PNum d1)" "transient ''distpsnr2'' = Some (PNum d2)"
    "transient ''distpsnr3'' = Some (PNum d3)" "transient ''sgscore1'' = Some (PNum s1)"
    "transient ''sgscore2'' = Some (PNum s2)" "transient ''sgscore3'' = Some (PNum s3)"
  shows "is_confused_in_PS1 self env transient =
     Inr (max3 \<bar>rnd env (s1 - 0.5)\<bar> \<bar>rnd env (s2 - 0.5)\<bar> \<bar>rnd env (s3 - 0.5)\<bar>
            < ps1_confusion_sg_tol self \<and>
          max3 d1 d2 d3 < ps1_confusion_rad self)"
  using assms by (simp add: is_confused_in_PS1_def)

lemma float64_rounding_low:
  assumes "float64_rounding r" and "0 \<le> c" and "c \<le> 1 / 4"
  shows "r c \<le> \<bar>r (r c - 0.5)\<bar>"
proof -
  from assms(1) have m: "mono r" and i: "r (r c) = r c" and n: "r (- r c) = - r (r c)"
    and z: "r 0 = 0" and q: "r (1 / 4) = 1 / 4"
    by (simp_all add: float64_rounding_def)
  from m assms(2) have "r 0 \<le> r c" by (rule monoD)
  with z have lo: "0 \<le> r c" by simp
  from m assms(3) have "r c \<le> r (1 / 4)" by (rule monoD)
  with q have hi: "r c \<le> 1 / 4" by simp
  then have "r c - 0.5 \<le> - r c" by simp
  with m have "r (r c - 0.5) \<le> r (- r c)" by (rule monoD)
  with n i have "r (r c - 0.5) \<le> - r c" by simp
  with lo show ?thesis by linarith
qed

text \<open>
  C3. On a detection whose three distances and three scores are numbers,
  \<open>is_confused_in_PS1\<close> returns True, and the confusion gate rejects, exactly when the
  three distances are below \<open>ps1_confusion_rad\<close> and the largest deviation of the
  scores from 0.5, each difference as the interpreter computes it, is below
  \<open>ps1_confusion_sg_tol\<close>. Scores of 0.5 at distance 0 are confused for every positive
  radius and tolerance; the scores 0.1, 0.9 and 0.5 (the floats of these literals, in
  any order) with tolerance 0.1 are not, whatever the distances and the radius.
\<close>

theorem is_confused_in_PS1_exact:
  assumes "transient ''distpsnr1'' = Some (PNum d1)"
    and "transient ''distpsnr2'' = Some (PNum d2)"
    and "transient ''distpsnr3'' = Some (PNum d3)"
    and "transient ''sgscore1'' = Some (PNum s1)"
    and "transient ''sgscore2'' = Some (PNum s2)"
    and "transient ''sgscore3'' = Some (PNum s3)"
  shows
    "is_confused_in_PS1 self env transient =
       Inr ((d1 < ps1_confusion_rad self \<and> d2 < ps1_confusion_rad self \<and>
             d3 < ps1_confusion_rad self) \<and>
            Max {\<bar>rnd env (s1 - 0.5)\<bar>, \<bar>rnd env (s2 - 0.5)\<bar>, \<bar>rnd env (s3 - 0.5)\<bar>}
              < ps1_confusion_sg_tol self)
     \<and> (gate_ps1_confusion self env transient
           = Inr (Some (INFO, ''ps1Confusion'', PBool True)) \<longleftrightarrow>
          (d1 < ps1_confusion_rad self \<and> d2 < ps1_confusion_rad self \<and>
           d3 < ps1_confusion_rad self) \<and>
          Max {\<bar>rnd env (s1 - 0.5)\<bar>, \<bar>rnd env (s2 - 0.5)\<bar>, \<bar>rnd env (s3 - 0.5)\<bar>}
            < ps1_confusion_sg_tol self)
     \<and> (d1 = 0 \<and> d2 = 0 \<and> d3 = 0 \<and> s1 = 0.5 \<and> s2 = 0.5 \<and> s3 = 0.5 \<and>
          0 < ps1_confusion_rad self \<and> 0 < ps1_confusion_sg_tol self \<and> rnd env 0 = 0 \<longrightarrow>
            is_confused_in_PS1 self env transient = Inr True)
     \<and> (float64_rounding (rnd env) \<and> {s1, s2, s3} = {rnd env 0.1, rnd env 0.9, 0.5} \<and>
          ps1_confusion_sg_tol self = rnd env 0.1 \<longrightarrow>
            is_confused_in_PS1 self env transient = Inr False)"
proof -
  let ?close = "d1 < ps1_confusion_rad self \<and> d2 < ps1_confusion_rad self \<and>
             d3 < ps1_confusion_rad self"
  let ?dev = "Max {\<bar>rnd env (s1 - 0.5)\<bar>, \<bar>rnd env (s2 - 0.5)\<bar>, \<bar>rnd env (s3 - 0.5)\<bar>}"
  have eq: "is_confused_in_PS1 self env transient
            = Inr (?close \<and> ?dev < ps1_confusion_sg_tol self)"
    unfolding is_confused_in_PS1_nums [OF assms] max3_less_iff [of d1]
    by (auto simp: max3_Max)
  have gate: "gate_ps1_confusion self env transient
                = Inr (Some (INFO, ''ps1Confusion'', PBool True)) \<longleftrightarrow>
              ?close \<and> ?dev < ps1_confusion_sg_tol self"
    by (simp add: gate_ps1_confusion_def eq)
  have b1: "is_confused_in_PS1 self env transient = Inr True"
    if "d1 = 0 \<and> d2 = 0 \<and> d3 = 0 \<and> s1 = 0.5 \<and> s2 = 0.5 \<and> s3 = 0.5 \<and>
          0 < ps1_confusion_rad self \<and> 0 < ps1_confusion_sg_tol self \<and> rnd env 0 = 0"
  proof -
    from that have z: "rnd env 0 = 0" by simp
    have "rnd env (s - 0.5) = 0" if "s = 0.5" for s
      unfolding that using z by simp
    with that have "rnd env (s1 - 0.5) = 0" "rnd env (s2 - 0.5) = 0" "rnd env (s3 - 0.5) = 0"
      by blast+
    with that show ?thesis unfolding eq by simp
  qed
  have b2: "is_confused_in_PS1 self env transient = Inr False"
    if h: "float64_rounding (rnd env) \<and> {s1, s2, s3} = {rnd env 0.1, rnd env 0.9, 0.5} \<and>
          ps1_confusion_sg_tol self = rnd env 0.1"
  proof -
    define dev where "dev = ?dev"
    define t where "t = rnd env 0.1"
    from h have "t \<in> {s1, s2, s3}" by (simp add: t_def)
    then have "\<bar>rnd env (t - 0.5)\<bar>
               \<in> {\<bar>rnd env (s1 - 0.5)\<bar>, \<bar>rnd env (s2 - 0.5)\<bar>, \<bar>rnd env (s3 - 0.5)\<bar>}"
      by auto
    then have "\<bar>rnd env (t - 0.5)\<bar> \<le> dev"
      unfolding dev_def by (intro Max_ge) simp_all
    moreover have "t \<le> \<bar>rnd env (t - 0.5)\<bar>"
      unfolding t_def using h by (intro float64_rounding_low) simp_all
    ultimately have "\<not> dev < ps1_confusion_sg_tol self"
      using h by (simp add: t_def)
    then show ?thesis unfolding dev_def eq by simp
  qed
  from eq gate b1 b2 show ?thesis by blast
qed

theorem is_confused_in_PS1_exact_witness:
  "is_confused_in_PS1 example_filter empty_sky confused_latest = Inr True \<and>
   gate_ps1_confusion example_filter empty_sky confused_latest
     = Inr (Some (INFO, ''ps1Confusion'', PBool True)) \<and>
   is_confused_in_PS1 example_filter empty_sky split_latest = Inr False"
proof -
  have c: "confused_latest ''distpsnr1'' = Some (PNum 0)" "confused_latest ''distpsnr2'' = Some (PNum 0)"
    "confused_latest ''distpsnr3'' = Some (PNum 0)" "confused_latest ''sgscore1'' = Some (PNum 0.5)"
    "confused_latest ''sgscore2'' = Some (PNum 0.5)" "confused_latest ''sgscore3'' = Some (PNum 0.5)"
    by (simp_all add: confused_latest_def)
  have s: "split_latest ''distpsnr1'' = Some (PNum 0)" "split_latest ''distpsnr2'' = Some (PNum 0)"
    "split_latest ''distpsnr3'' = Some (PNum 0)" "split_latest ''sgscore1'' = Some (PNum 0.1)"
    "split_latest ''sgscore2'' = Some (PNum 0.9)" "split_latest ''sgscore3'' = Some (PNum 0.5)"
    by (simp_all add: split_latest_def)
  have f: "0 < ps1_confusion_rad example_filter" "0 < ps1_confusion_sg_tol example_filter"
    "ps1_confusion_sg_tol example_filter = rnd empty_sky 0.1"
    by (simp_all add: example_filter_def empty_sky_def)
  have r: "rnd empty_sky 0 = 0" "float64_rounding (rnd empty_sky)"
    "{0.1, 0.9, 0.5} = {rnd empty_sky 0.1, rnd empty_sky 0.9, 0.5 :: real}"
    by (simp_all add: empty_sky_def float64_rounding_def mono_def)
  from is_confused_in_PS1_exact [OF c, of example_filter empty_sky] f r
  have 1: "is_confused_in_PS1 example_filter empty_sky confused_latest = Inr True"
    and 2: "gate_ps1_confusion example_filter empty_sky confused_latest
              = Inr (Some (INFO, ''ps1Confusion'', PBool True))"
    by simp_all
  from is_confused_in_PS1_exact [OF s, of example_filter empty_sky] f r
  have 3: "is_confused_in_PS1 example_filter empty_sky split_latest = Inr False"
    by blast
  from 1 2 3 show ?thesis by simp
qed

section \<open>Gates behind gates that pass\<close>

lemma evaluate_gates_append_pass:
  "\<forall>g \<in> set gs1. passes g x \<Longrightarrow> evaluate_gates (gs1 @ gs2) acc x = evaluate_gates gs2 acc x"
  by (induction gs1) (simp_all add: passes_def)

lemma evaluate_gates_drop:
  assumes "\<forall>g \<in> set (take k gs). passes g x"
  shows "evaluate_gates gs acc x = evaluate_gates (drop k gs) acc x"
proof -
  have "evaluate_gates (take k gs @ drop k gs) acc x = evaluate_gates (drop k gs) acc x"
    using assms by (rule evaluate_gates_append_pass)
  then show ?thesis by simp
qed

lemma emit_snd_cases:
  "snd (emit r lg) = lg @ [rec] \<longleftrightarrow> (\<exists>d. r = Inr d \<and> logged d = rec)"
  by (cases r) auto

lemma gate_gal_lat_reason:
  "gate_gal_lat self env latest = Inr (Some r) \<Longrightarrow> fst (snd r) = ''galPlane''"
  by (cases "get_galactic_latitude env latest") (auto simp: gate_gal_lat_def split: if_splits)

lemma gate_ps1_star_reason:
  "gate_ps1_star self latest = Inr (Some r) \<Longrightarrow> fst (snd r) = ''distpsnr1''"
  by (cases "is_star_in_PS1 self latest"; cases "getitem latest ''distpsnr1''")
     (auto simp: gate_ps1_star_def split: if_splits)

lemma gate_ps1_confusion_reason:
  "gate_ps1_confusion self env latest = Inr (Some r) \<Longrightarrow> fst (snd r) = ''ps1Confusion''"
  by (cases "is_confused_in_PS1 self env latest") (auto simp: gate_ps1_confusion_def split: if_splits)

lemma gate_gaia_reason:
  "gate_gaia self env latest = Inr (Some r) \<Longrightarrow> fst (snd r) = ''gaiaIsStar''"
  by (cases "is_star_in_gaia self env latest") (auto simp: gate_gaia_def split: if_splits)

lemma accept_latest_reason:
  "accept_latest self latest = Inr d \<Longrightarrow> fst (snd (logged d)) = ''latestPpId''"
  by (cases "getitem latest ''candid''") (auto simp: accept_latest_def)

lemma after_sso_reason:
  assumes "evaluate_gates [gate_gal_lat self env, gate_ps1_star self, gate_ps1_confusion self env,
             gate_gaia self env] (accept_latest self) latest = Inr d"
  shows "fst (snd (logged d)) \<noteq> ''ssdistnr''"
proof -
  have "fst (snd (logged d)) \<in> {''galPlane'', ''distpsnr1'', ''ps1Confusion'', ''gaiaIsStar'', ''latestPpId''}"
    using assms
    by (auto split: sum.splits option.splits
        dest: gate_gal_lat_reason gate_ps1_star_reason gate_ps1_confusion_reason gate_gaia_reason
          accept_latest_reason)
  then show ?thesis by auto
qed

lemma num_gate_PNum:
  "latest key = Some (PNum x) \<Longrightarrow>
   num_gate key bad latest = Inr (if bad x then Some (INFO, key, PNum x) else None)"
  by (simp add: num_gate_def)

text \<open>
  C5. On an alert that passes the gates before it, with a number \<open>d\<close> as
  \<open>ssdistnr\<close> of the latest detection, the solar-system-object gate rejects exactly
  when \<open>0 \<le> d < min_ssdistnr\<close>: the call then returns None with that reason, and
  otherwise no rejection of the call carries that reason. A distance of 0 below a
  positive threshold rejects; a negative distance passes the gate for every threshold.
\<close>

theorem sso_gate_exact:
  assumes "pps alert = latest # older"
    and "latest ''ssdistnr'' = Some (PNum d)"
    and "\<forall>g \<in> set (take 7 (decent_gates self env)). passes g alert"
  shows
    "(gate_sso self latest = Inr (Some (INFO, ''ssdistnr'', PNum d)) \<longleftrightarrow>
        0 \<le> d \<and> d < min_ssdistnr self)
     \<and> (passes (gate_sso self) latest \<longleftrightarrow> \<not> (0 \<le> d \<and> d < min_ssdistnr self))
     \<and> (0 \<le> d \<and> d < min_ssdistnr self \<longrightarrow>
          apply_alert self env alert lg = (Inr None, lg @ [(INFO, ''ssdistnr'', PNum d)]))
     \<and> ((\<exists>v. snd (apply_alert self env alert lg) = lg @ [(INFO, ''ssdistnr'', v)]) \<longleftrightarrow>
          0 \<le> d \<and> d < min_ssdistnr self)
     \<and> (d = 0 \<and> 0 < min_ssdistnr self \<longrightarrow>
          apply_alert self env alert lg = (Inr None, lg @ [(INFO, ''ssdistnr'', PNum 0)]))
     \<and> (d < 0 \<longrightarrow> passes (gate_sso self) latest \<and>
          (\<forall>v. snd (apply_alert self env alert lg) \<noteq> lg @ [(INFO, ''ssdistnr'', v)]))"
proof -
  let ?near = "0 \<le> d \<and> d < min_ssdistnr self"
  let ?rest = "[gate_gal_lat self env, gate_ps1_star self, gate_ps1_confusion self env,
             gate_gaia self env]"
  have g: "gate_sso self latest = Inr (if ?near then Some (INFO, ''ssdistnr'', PNum d) else None)"
    using assms(2) by (simp add: gate_sso_def num_gate_PNum)
  have "evaluate self env alert
        = evaluate_gates (drop 7 (decent_gates self env)) (accept self) alert"
    unfolding evaluate_def using assms(3) by (rule evaluate_gates_drop)
  also have "drop 7 (decent_gates self env) = map on_latest (gate_sso self # ?rest)"
    by (simp add: decent_gates_def latest_gates_def)
  also have "evaluate_gates (map on_latest (gate_sso self # ?rest)) (accept self) alert
        = evaluate_gates (gate_sso self # ?rest) (accept_latest self) latest"
    unfolding accept_def using assms(1) by (rule evaluate_gates_on_latest)
  finally have ev: "evaluate self env alert
        = (if ?near then Inr (Rejected (INFO, ''ssdistnr'', PNum d))
           else evaluate_gates ?rest (accept_latest self) latest)"
    by (simp add: g)
  have near: "apply_alert self env alert lg = (Inr None, lg @ [(INFO, ''ssdistnr'', PNum d)])"
    if ?near
    using that by (simp add: apply_alert_evaluate ev)
  have far: "snd (apply_alert self env alert lg) \<noteq> lg @ [(INFO, ''ssdistnr'', v)]"
    if "\<not> ?near" for v
  proof
    have ev': "evaluate self env alert = evaluate_gates ?rest (accept_latest self) latest"
      by (simp only: ev if_not_P [OF that])
    assume "snd (apply_alert self env alert lg) = lg @ [(INFO, ''ssdistnr'', v)]"
    then obtain dec where "evaluate_gates ?rest (accept_latest self) latest = Inr dec"
      and "logged dec = (INFO, ''ssdistnr'', v)"
      unfolding apply_alert_evaluate ev' emit_snd_cases by blast
    with after_sso_reason [of self env latest dec] show False by simp
  qed
  have 1: "gate_sso self latest = Inr (Some (INFO, ''ssdistnr'', PNum d)) \<longleftrightarrow> ?near"
    by (simp add: g)
  have 2: "passes (gate_sso self) latest \<longleftrightarrow> \<not> ?near"
    by (simp add: g passes_def)
  have 4: "(\<exists>v. snd (apply_alert self env alert lg) = lg @ [(INFO, ''ssdistnr'', v)]) \<longleftrightarrow> ?near"
    using near far by (cases ?near) auto
  have 5: "d = 0 \<and> 0 < min_ssdistnr self \<longrightarrow>
          apply_alert self env alert lg = (Inr None, lg @ [(INFO, ''ssdistnr'', PNum 0)])"
    using near by auto
  have 6: "d < 0 \<longrightarrow> passes (gate_sso self) latest \<and>
          (\<forall>v. snd (apply_alert self env alert lg) \<noteq> lg @ [(INFO, ''ssdistnr'', v)])"
    using 2 far by auto
  from 1 2 near 4 5 6 show ?thesis by blast
qed

theorem sso_gate_exact_witness:
  "apply_alert example_filter empty_sky (sso_alert 0) [] = (Inr None, [(INFO, ''ssdistnr'', PNum 0)]) \<and>
   passes (gate_sso example_filter) (sso_latest (- 1)) \<and>
   snd (apply_alert example_filter empty_sky (sso_alert (- 1)) []) \<noteq> [(INFO, ''ssdistnr'', PNum (- 1))]"
proof -
  have p: "pps (sso_alert d) = sso_latest d # [example_older]" for d
    by (simp add: sso_alert_def)
  have v: "sso_latest d ''ssdistnr'' = Some (PNum d)" for d
    by (simp add: sso_latest_def)
  have g: "\<forall>g \<in> set (take 7 (decent_gates example_filter empty_sky)). passes g (sso_alert d)" for d
    by (simp add: gate_defs method_defs example_defs sso_alert_def sso_latest_def)
  have m: "0 < min_ssdistnr example_filter"
    by (simp add: example_filter_def)
  from sso_gate_exact [OF p v g, of 0 "[]"] m
  have 1: "apply_alert example_filter empty_sky (sso_alert 0) [] = (Inr None, [(INFO, ''ssdistnr'', PNum 0)])"
    by simp
  from sso_gate_exact [OF p v g, of "- 1" "[]"]
  have 2: "passes (gate_sso example_filter) (sso_latest (- 1))"
    and 3: "snd (apply_alert example_filter empty_sky (sso_alert (- 1)) []) \<noteq> [(INFO, ''ssdistnr'', PNum (- 1))]"
    by simp_all
  from 1 2 3 show ?thesis by simp
qed

section \<open>The history and the required fields\<close>

lemma nums_of_map_PNum: "nums_of (map PNum xs) = Inr xs"
  by (induction xs) simp_all

lemma py_max_Max: "xs \<noteq> [] \<Longrightarrow> py_max xs = Inr (Max (set xs))"
proof (cases xs)
  case (Cons a list)
  then show ?thesis using Max.set_eq_fold [of a list] by simp
qed simp

lemma py_min_Min: "xs \<noteq> [] \<Longrightarrow> py_min xs = Inr (Min (set xs))"
proof (cases xs)
  case (Cons a list)
  then show ?thesis using Min.set_eq_fold [of a list] by simp
qed simp

lemma det_tspan_of_PNum:
  "jds \<noteq> [] \<Longrightarrow> det_tspan_of (map PNum jds) = Inr (Max (set jds) - Min (set jds))"
  by (simp add: det_tspan_of_def nums_of_map_PNum py_max_Max py_min_Min)

lemma gate_ndet_passes:
  "passes (gate_ndet self) alert \<longleftrightarrow> min_ndet self \<le> int (length (pps alert))"
  by (auto simp: passes_def gate_ndet_def)

lemma gate_tspan_span:
  "det_tspan_of (get_values ''jd'' alert) = Inr s \<Longrightarrow>
   gate_tspan self alert =
     Inr (if min_tspan self < s \<and> s < max_tspan self then None else Some (INFO, ''tSpan'', PNum s))"
  by (simp add: gate_tspan_def)

text \<open>
  C4. On an alert that passes the detection-count gate and whose detections carry the
  Julian dates \<open>jds\<close>, let \<open>s\<close> be the largest minus the smallest date. If
  \<open>s \<le> min_tspan\<close> or \<open>s \<ge> max_tspan\<close> the call returns None, with \<open>tSpan\<close> as
  reason. If \<open>min_tspan < s < max_tspan\<close>, the gates on the latest detection pass and
  the accepting step finds the identifier of the latest detection, the call returns
  \<open>on_match_t2_units\<close>.
\<close>

theorem history_span_gate:
  assumes "min_ndet self \<le> int (length (pps alert))"
    and "get_values ''jd'' alert = map PNum jds"
    and "jds \<noteq> []"
    and "s = Max (set jds) - Min (set jds)"
  shows
    "(s \<le> min_tspan self \<or> s \<ge> max_tspan self \<longrightarrow>
        apply_alert self env alert lg = (Inr None, lg @ [(INFO, ''tSpan'', PNum s)]))
     \<and> (\<forall>latest older candid.
          min_tspan self < s \<and> s < max_tspan self \<and>
          (\<forall>g \<in> set (latest_gates self env). passes g latest) \<and>
          pps alert = latest # older \<and> latest ''candid'' = Some candid \<longrightarrow>
            apply_alert self env alert lg
              = (Inr (Some (on_match_t2_units self)), lg @ [(DEBUG, ''latestPpId'', candid)]))"
proof (intro conjI allI impI)
  have span: "det_tspan_of (get_values ''jd'' alert) = Inr s"
    using assms(2-4) by (simp add: det_tspan_of_PNum)
  have ndet: "passes (gate_ndet self) alert"
    using assms(1) by (simp add: gate_ndet_passes)
  {
    assume out: "s \<le> min_tspan self \<or> s \<ge> max_tspan self"
    then have "\<not> (min_tspan self < s \<and> s < max_tspan self)" by auto
    then have "gate_tspan self alert = Inr (Some (INFO, ''tSpan'', PNum s))"
      by (simp only: gate_tspan_span [OF span] if_False)
    with ndet have "evaluate self env alert = Inr (Rejected (INFO, ''tSpan'', PNum s))"
      by (simp add: evaluate_def decent_gates_def passes_def)
    then show "apply_alert self env alert lg = (Inr None, lg @ [(INFO, ''tSpan'', PNum s)])"
      by (simp add: apply_alert_evaluate)
  }
  fix latest older candid
  assume h: "min_tspan self < s \<and> s < max_tspan self \<and>
          (\<forall>g \<in> set (latest_gates self env). passes g latest) \<and>
          pps alert = latest # older \<and> latest ''candid'' = Some candid"
  then have tspan: "gate_tspan self alert = Inr None"
    by (simp add: gate_tspan_span [OF span])
  from h have p: "pps alert = latest # older" by simp
  have "evaluate self env alert
        = evaluate_gates (map on_latest (latest_gates self env)) (accept self) alert"
    using ndet tspan by (simp add: evaluate_def decent_gates_def passes_def)
  also have "\<dots> = evaluate_gates (latest_gates self env) (accept_latest self) latest"
    unfolding accept_def using p by (rule evaluate_gates_on_latest)
  also have "\<dots> = accept_latest self latest"
    using h by (intro evaluate_gates_pass) simp
  also have "\<dots> = Inr (Accepted (DEBUG, ''latestPpId'', candid) (on_match_t2_units self))"
    using h by (simp add: accept_latest_def)
  finally show "apply_alert self env alert lg
              = (Inr (Some (on_match_t2_units self)), lg @ [(DEBUG, ''latestPpId'', candid)])"
    by (simp add: apply_alert_evaluate)
qed

lemma find_incomplete:
  "el \<in> set ks \<Longrightarrow> incomplete latest el \<Longrightarrow>
   \<exists>k. k \<in> set ks \<and> incomplete latest k \<and> find (incomplete latest) ks = Some k"
  by (induction ks) auto

text \<open>
  C6. On an alert that passes the count and span gates, if a field of
  \<open>keys_to_check\<close> is absent from the latest detection or null on it, the call returns
  None: it does not raise, whatever the collaborators do, and it logs the first such
  field as \<open>missing\<close> or \<open>isNone\<close>. The required fields are the fifteen named ones;
  \<open>drb\<close> is not among them.
\<close>

theorem incomplete_alert_rejected:
  assumes "min_ndet self \<le> int (length (pps alert))"
    and "det_tspan_of (get_values ''jd'' alert) = Inr s"
    and "min_tspan self < s" and "s < max_tspan self"
    and "pps alert = latest # older"
    and "el \<in> set keys_to_check"
    and "latest el = None \<or> latest el = Some PNone"
  shows
    "fst (apply_alert self env alert lg) = Inr None
     \<and> (\<exists>k. k \<in> set keys_to_check \<and> (latest k = None \<or> latest k = Some PNone) \<and>
           snd (apply_alert self env alert lg)
             = lg @ [(INFO, if latest k = None then ''missing'' else ''isNone'', PStr k)])
     \<and> set keys_to_check =
          {''fwhm'', ''elong'', ''magdiff'', ''nbad'', ''distpsnr1'', ''distpsnr2'', ''distpsnr3'',
           ''sgscore1'', ''sgscore2'', ''sgscore3'', ''isdiffpos'', ''ra'', ''dec'', ''rb'',
           ''ssdistnr''}
     \<and> ''drb'' \<notin> set keys_to_check"
proof -
  have ndet: "gate_ndet self alert = Inr None"
    using assms(1) gate_ndet_passes [of self alert] by (simp add: passes_def)
  have tspan: "gate_tspan self alert = Inr None"
    using assms(3,4) by (simp add: gate_tspan_span [OF assms(2)])
  from find_incomplete [of el keys_to_check latest] assms(6,7)
  obtain k where k: "k \<in> set keys_to_check" "incomplete latest k"
    and f: "find (incomplete latest) keys_to_check = Some k"
    by (auto simp: incomplete_def)
  have keys: "on_latest gate_keys alert
      = Inr (Some (INFO, if latest k = None then ''missing'' else ''isNone'', PStr k))"
    using assms(5) f by (simp add: on_latest_def gate_keys_def)
  have "evaluate self env alert
      = Inr (Rejected (INFO, if latest k = None then ''missing'' else ''isNone'', PStr k))"
    using ndet tspan keys
    by (simp add: evaluate_def decent_gates_def latest_gates_def)
  then have a: "apply_alert self env alert lg
      = (Inr None, lg @ [(INFO, if latest k = None then ''missing'' else ''isNone'', PStr k)])"
    by (simp add: apply_alert_evaluate)
  have s: "set keys_to_check =
          {''fwhm'', ''elong'', ''magdiff'', ''nbad'', ''distpsnr1'', ''distpsnr2'', ''distpsnr3'',
           ''sgscore1'', ''sgscore2'', ''sgscore3'', ''isdiffpos'', ''ra'', ''dec'', ''rb'',
           ''ssdistnr''}"
    unfolding keys_to_check_def by (simp add: insert_commute)
  have d: "''drb'' \<notin> set keys_to_check"
    by (simp add: keys_to_check_def)
  from a k s d show ?thesis unfolding incomplete_def by (intro conjI exI [of _ k]) simp_all
qed

theorem history_span_gate_witness:
  "apply_alert example_filter empty_sky (span_alert 0) [] = (Inr None, [(INFO, ''tSpan'', PNum 0)]) \<and>
   apply_alert example_filter empty_sky (span_alert 5) [] = (Inr None, [(INFO, ''tSpan'', PNum 5)]) \<and>
   apply_alert example_filter empty_sky (span_alert 1) []
     = (Inr (Some [''T2SNCosmo'', ''T2CatalogMatch'']), [(DEBUG, ''latestPpId'', PNum 2)])"
proof -
  have n: "min_ndet example_filter \<le> int (length (pps (span_alert s)))" for s
    by (simp add: example_filter_def span_alert_def)
  have j: "get_values ''jd'' (span_alert s) = map PNum [2458000.5 + s, 2458000.5]" for s
    by (simp add: get_values_def span_alert_def span_latest_def example_defs)
  have ne: "[2458000.5 + s, 2458000.5] \<noteq> []" for s :: real
    by simp
  have s0: "(0::real) = Max (set [2458000.5 + 0, 2458000.5]) - Min (set [2458000.5 + 0, 2458000.5])"
    by simp
  have s5: "(5::real) = Max (set [2458000.5 + 5, 2458000.5]) - Min (set [2458000.5 + 5, 2458000.5])"
    by simp
  have s1: "(1::real) = Max (set [2458000.5 + 1, 2458000.5]) - Min (set [2458000.5 + 1, 2458000.5])"
    by simp
  have f: "min_tspan example_filter = 0" "max_tspan example_filter = 5"
    "on_match_t2_units example_filter = [''T2SNCosmo'', ''T2CatalogMatch'']"
    by (simp_all add: example_filter_def)
  have g: "(\<forall>g \<in> set (latest_gates example_filter empty_sky). passes g (span_latest 1)) \<and>
     pps (span_alert 1) = span_latest 1 # [example_older] \<and> span_latest 1 ''candid'' = Some (PNum 2)"
    by (simp add: gate_defs method_defs example_defs span_alert_def span_latest_def)
  from history_span_gate [OF n j ne s0, of empty_sky "[]"] f
  have 1: "apply_alert example_filter empty_sky (span_alert 0) [] = (Inr None, [(INFO, ''tSpan'', PNum 0)])"
    by simp
  from history_span_gate [OF n j ne s5, of empty_sky "[]"] f
  have 2: "apply_alert example_filter empty_sky (span_alert 5) [] = (Inr None, [(INFO, ''tSpan'', PNum 5)])"
    by simp
  from history_span_gate [OF n j ne s1, of empty_sky "[]"] f g
  have 3: "apply_alert example_filter empty_sky (span_alert 1) []
     = (Inr (Some [''T2SNCosmo'', ''T2CatalogMatch'']), [(DEBUG, ''latestPpId'', PNum 2)])"
    by simp
  from 1 2 3 show ?thesis by simp
qed

theorem incomplete_alert_rejected_witness:
  "fst (apply_alert example_filter broken_sky missing_alert []) = Inr None \<and>
   fst (apply_alert example_filter broken_sky null_alert []) = Inr None"
proof -
  have n: "min_ndet example_filter \<le> int (length (pps missing_alert))"
    "min_ndet example_filter \<le> int (length (pps null_alert))"
    by (simp_all add: example_filter_def missing_alert_def null_alert_def)
  have j: "det_tspan_of (get_values ''jd'' missing_alert) = Inr 1"
    "det_tspan_of (get_values ''jd'' null_alert) = Inr 1"
    by (simp_all add: method_defs example_defs missing_alert_def null_alert_def missing_latest_def
        null_latest_def)
  have s: "min_tspan example_filter < 1" "1 < max_tspan example_filter"
    by (simp_all add: example_filter_def)
  have p: "pps missing_alert = missing_latest # [example_older]"
    "pps null_alert = null_latest # [example_older]"
    by (simp_all add: missing_alert_def null_alert_def)
  have k: "''fwhm'' \<in> set keys_to_check" "''ssdistnr'' \<in> set keys_to_check"
    by (simp_all add: keys_to_check_def)
  have v: "missing_latest ''fwhm'' = None \<or> missing_latest ''fwhm'' = Some PNone"
    "null_latest ''ssdistnr'' = None \<or> null_latest ''ssdistnr'' = Some PNone"
    by (simp_all add: missing_latest_def null_latest_def)
  from incomplete_alert_rejected [OF n(1) j(1) s p(1) k(1) v(1), of broken_sky "[]"]
  have 1: "fst (apply_alert example_filter broken_sky missing_alert []) = Inr None" by simp
  from incomplete_alert_rejected [OF n(2) j(2) s p(2) k(2) v(2), of broken_sky "[]"]
  have 2: "fst (apply_alert example_filter broken_sky null_alert []) = Inr None" by simp
  from 1 2 show ?thesis by simp
qed

section \<open>The GAIA veto\<close>

lemma py_any_map: "py_any (map P xs) \<longleftrightarrow> (\<exists>x. x \<in> set xs \<and> P x)"
  by (induction xs) auto

lemma is_star_in_gaia_srcs:
  assumes "transient ''ra'' = Some ra" and "transient ''dec'' = Some dec"
    and "gaia_cone_search env ra dec (gaia_rs self) = Inr srcs"
  shows "is_star_in_gaia self env transient =
     Inr (\<exists>x. x \<in> set srcs \<and> FLAG_PROX self env x \<and> FLAG_Clean self x \<and>
              (FLAG_PMRA self env x \<or> FLAG_PMDec self env x \<or> FLAG_Plx self env x))"
proof (cases srcs)
  case Nil
  with assms show ?thesis by (simp add: is_star_in_gaia_def)
next
  case (Cons a list)
  then have "length srcs > 0" by simp
  then show ?thesis
    using assms by (auto simp: is_star_in_gaia_def Let_def py_any_map)
qed

lemma gaia_gate_last:
  assumes "pps alert = latest # older"
    and "\<forall>g \<in> set (take 11 (decent_gates self env)). passes g alert"
  shows "evaluate self env alert
         = evaluate_gates [gate_gaia self env] (accept_latest self) latest"
proof -
  have "evaluate self env alert
        = evaluate_gates (drop 11 (decent_gates self env)) (accept self) alert"
    unfolding evaluate_def using assms(2) by (rule evaluate_gates_drop)
  also have "drop 11 (decent_gates self env) = map on_latest [gate_gaia self env]"
    by (simp add: decent_gates_def latest_gates_def)
  also have "evaluate_gates (map on_latest [gate_gaia self env]) (accept self) alert
        = evaluate_gates [gate_gaia self env] (accept_latest self) latest"
    unfolding accept_def using assms(1) by (rule evaluate_gates_on_latest)
  finally show ?thesis .
qed

text \<open>
  C2. Let the alert pass the eleven gates before the GAIA gate and let the cone search
  return the sources \<open>srcs\<close>. If one of them is closer than
  \<open>1.8 + 0.6 * exp((20 - Mag_G) / 2.05)\<close> arcsec, has its magnitude in the inclusive
  window, has an excess-noise significance below the maximum and a ratio
  \<open>|PMRA / ErrPMRA|\<close> above \<open>gaia_pm_signif\<close>, the bound and the ratio being the
  floats that numpy computes, then \<open>is_star_in_gaia\<close> is True and the
  call returns None with reason \<open>gaiaIsStar\<close>. If the search returns a single source
  whose magnitude is outside the window, \<open>is_star_in_gaia\<close> is False and the call
  returns \<open>on_match_t2_units\<close> (the accepting step finding the identifier of the latest
  detection).
\<close>

theorem gaia_veto:
  assumes "pps alert = latest # older"
    and "\<forall>g \<in> set (take 11 (decent_gates self env)). passes g alert"
    and "latest ''ra'' = Some ra" and "latest ''dec'' = Some dec"
    and "gaia_cone_search env ra dec (gaia_rs self) = Inr srcs"
  shows
    "(\<forall>x. x \<in> set srcs \<and>
          DISTANCE x
            < rnd env (rnd env 1.8 + rnd env (rnd env 0.6 *
                np_exp env (rnd env (rnd env (20 - Mag_G x) / rnd env 2.05)))) \<and>
          gaia_veto_gmag_min self \<le> Mag_G x \<and> Mag_G x \<le> gaia_veto_gmag_max self \<and>
          ExcessNoiseSig x < gaia_excessnoise_sig_max self \<and>
          ErrPMRA x \<noteq> 0 \<and> \<bar>rnd env (PMRA x / ErrPMRA x)\<bar> > gaia_pm_signif self \<longrightarrow>
            is_star_in_gaia self env latest = Inr True \<and>
            apply_alert self env alert lg = (Inr None, lg @ [(INFO, ''gaiaIsStar'', PBool True)]))
     \<and> (\<forall>x candid.
          srcs = [x] \<and>
          (Mag_G x < gaia_veto_gmag_min self \<or> gaia_veto_gmag_max self < Mag_G x) \<and>
          latest ''candid'' = Some candid \<longrightarrow>
            is_star_in_gaia self env latest = Inr False \<and>
            apply_alert self env alert lg
              = (Inr (Some (on_match_t2_units self)), lg @ [(DEBUG, ''latestPpId'', candid)]))"
proof (intro conjI allI impI)
  note star = is_star_in_gaia_srcs [OF assms(3-5)]
  note ev = gaia_gate_last [OF assms(1,2)]
  {
    fix x
    assume h: "x \<in> set srcs \<and>
          DISTANCE x
            < rnd env (rnd env 1.8 + rnd env (rnd env 0.6 *
                np_exp env (rnd env (rnd env (20 - Mag_G x) / rnd env 2.05)))) \<and>
          gaia_veto_gmag_min self \<le> Mag_G x \<and> Mag_G x \<le> gaia_veto_gmag_max self \<and>
          ExcessNoiseSig x < gaia_excessnoise_sig_max self \<and>
          ErrPMRA x \<noteq> 0 \<and> \<bar>rnd env (PMRA x / ErrPMRA x)\<bar> > gaia_pm_signif self"
    then have "x \<in> set srcs \<and> FLAG_PROX self env x \<and> FLAG_Clean self x \<and> FLAG_PMRA self env x"
      by (simp add: FLAG_PROX_def DISTANCE_NORM_def FLAG_Clean_def FLAG_PMRA_def np_abs_div_gt_def)
    then have "\<exists>x. x \<in> set srcs \<and> FLAG_PROX self env x \<and> FLAG_Clean self x \<and>
              (FLAG_PMRA self env x \<or> FLAG_PMDec self env x \<or> FLAG_Plx self env x)"
      by blast
    then show t: "is_star_in_gaia self env latest = Inr True"
      by (simp only: star)
    then show "apply_alert self env alert lg = (Inr None, lg @ [(INFO, ''gaiaIsStar'', PBool True)])"
      by (simp add: apply_alert_evaluate ev gate_gaia_def)
  }
  fix x candid
  assume h: "srcs = [x] \<and>
          (Mag_G x < gaia_veto_gmag_min self \<or> gaia_veto_gmag_max self < Mag_G x) \<and>
          latest ''candid'' = Some candid"
  then have "\<not> FLAG_PROX self env x"
    by (auto simp: FLAG_PROX_def)
  with h have "\<not> (\<exists>x. x \<in> set srcs \<and> FLAG_PROX self env x \<and> FLAG_Clean self x \<and>
              (FLAG_PMRA self env x \<or> FLAG_PMDec self env x \<or> FLAG_Plx self env x))"
    by simp
  then show f: "is_star_in_gaia self env latest = Inr False"
    by (simp only: star)
  with h show "apply_alert self env alert lg
              = (Inr (Some (on_match_t2_units self)), lg @ [(DEBUG, ''latestPpId'', candid)])"
    by (simp add: apply_alert_evaluate ev gate_gaia_def accept_latest_def)
qed

theorem gaia_veto_witness:
  "\<bar>PMRA (moving_source 20) / ErrPMRA (moving_source 20)\<bar> = 10 \<and>
   gaia_pm_signif example_filter = 5 \<and>
   apply_alert example_filter (one_source_sky (moving_source 20)) example_alert []
     = (Inr None, [(INFO, ''gaiaIsStar'', PBool True)]) \<and>
   apply_alert example_filter (one_source_sky (moving_source 21)) example_alert []
     = (Inr (Some [''T2SNCosmo'', ''T2CatalogMatch'']), [(DEBUG, ''latestPpId'', PNum 2)])"
proof -
  have p: "pps example_alert = example_latest # [example_older]"
    by (simp add: example_alert_def)
  have g: "\<forall>g \<in> set (take 11 (decent_gates example_filter (one_source_sky src))). passes g example_alert"
    for src
    by (simp add: gate_defs method_defs example_defs one_source_sky_def)
  have c: "example_latest ''ra'' = Some (PNum 150)" "example_latest ''dec'' = Some (PNum 30)"
    "example_latest ''candid'' = Some (PNum 2)"
    by (simp_all add: example_latest_def)
  have s: "gaia_cone_search (one_source_sky src) (PNum 150) (PNum 30) (gaia_rs example_filter)
           = Inr [src]" for src
    by (simp add: one_source_sky_def)
  have f: "gaia_pm_signif example_filter = 5" "gaia_veto_gmag_min example_filter = 9"
    "gaia_veto_gmag_max example_filter = 20" "gaia_excessnoise_sig_max example_filter = 999"
    "on_match_t2_units example_filter = [''T2SNCosmo'', ''T2CatalogMatch'']"
    by (simp_all add: example_filter_def)
  have r: "\<bar>PMRA (moving_source 20) / ErrPMRA (moving_source 20)\<bar> = 10"
    by (simp add: moving_source_def)
  have h20: "moving_source 20 \<in> set [moving_source 20] \<and>
          DISTANCE (moving_source 20)
            < rnd (one_source_sky (moving_source 20))
                (rnd (one_source_sky (moving_source 20)) 1.8 +
                 rnd (one_source_sky (moving_source 20))
                   (rnd (one_source_sky (moving_source 20)) 0.6 *
                    np_exp (one_source_sky (moving_source 20))
                      (rnd (one_source_sky (moving_source 20))
                         (rnd (one_source_sky (moving_source 20)) (20 - Mag_G (moving_source 20)) /
                          rnd (one_source_sky (moving_source 20)) 2.05)))) \<and>
          gaia_veto_gmag_min example_filter \<le> Mag_G (moving_source 20) \<and>
          Mag_G (moving_source 20) \<le> gaia_veto_gmag_max example_filter \<and>
          ExcessNoiseSig (moving_source 20) < gaia_excessnoise_sig_max example_filter \<and>
          ErrPMRA (moving_source 20) \<noteq> 0 \<and>
          \<bar>rnd (one_source_sky (moving_source 20))
             (PMRA (moving_source 20) / ErrPMRA (moving_source 20))\<bar>
            > gaia_pm_signif example_filter"
    by (simp add: f moving_source_def one_source_sky_def)
  have h21: "[moving_source 21] = [moving_source 21] \<and>
          (Mag_G (moving_source 21) < gaia_veto_gmag_min example_filter \<or>
           gaia_veto_gmag_max example_filter < Mag_G (moving_source 21)) \<and>
          example_latest ''candid'' = Some (PNum 2)"
    by (simp add: f c moving_source_def)
  from gaia_veto [OF p g c(1,2) s, of "moving_source 20" "[]"] h20
  have 1: "apply_alert example_filter (one_source_sky (moving_source 20)) example_alert []
     = (Inr None, [] @ [(INFO, ''gaiaIsStar'', PBool True)])"
    by blast
  from gaia_veto [OF p g c(1,2) s, of "moving_source 21" "[]"] h21
  have 2: "apply_alert example_filter (one_source_sky (moving_source 21)) example_alert []
     = (Inr (Some (on_match_t2_units example_filter)), [] @ [(DEBUG, ''latestPpId'', PNum 2)])"
    by blast
  from 1 2 r f show ?thesis by simp
qed

section \<open>Fields and thresholds that the decision does not depend on\<close>

lemma evaluate_gates_cong:
  "\<forall>g \<in> set gs. g x' = g x \<Longrightarrow> acc x' = acc x \<Longrightarrow>
   evaluate_gates gs acc x' = evaluate_gates gs acc x"
  by (induction gs) (simp_all split: sum.splits option.splits)

lemma gate_keys_cong:
  assumes "\<And>el. el \<in> set keys_to_check \<Longrightarrow>
             incomplete p' el = incomplete p el \<and> (p' el = None \<longleftrightarrow> p el = None)"
  shows "gate_keys p' = gate_keys p"
proof -
  have f: "find (incomplete p') keys_to_check = find (incomplete p) keys_to_check"
    using assms by (intro find_cong) simp_all
  show ?thesis
  proof (cases "find (incomplete p) keys_to_check")
    case None
    with f show ?thesis by (simp add: gate_keys_def)
  next
    case (Some el)
    then have "el \<in> set keys_to_check"
      by (auto simp: find_Some_iff)
    with assms have "p' el = None \<longleftrightarrow> p el = None" by simp
    with f Some show ?thesis by (simp add: gate_keys_def)
  qed
qed

lemma getitem_cong: "p' k = p k \<Longrightarrow> getitem p' k = getitem p k"
  by (simp add: getitem_def)

lemma latest_gates_cong:
  assumes keys: "gate_keys p' = gate_keys p"
    and same: "\<And>k. k \<in> {''isdiffpos'', ''rb'', ''fwhm'', ''elong'', ''magdiff'', ''ssdistnr'',
        ''ra'', ''dec'', ''distpsnr1'', ''distpsnr2'', ''distpsnr3'', ''sgscore1'', ''sgscore2'',
        ''sgscore3'', ''candid''} \<Longrightarrow> p' k = p k"
    and drb: "0 < min_drb self \<Longrightarrow> p' ''drb'' = p ''drb''"
  shows "\<forall>g \<in> set (latest_gates self env). g p' = g p"
    and "accept_latest self p' = accept_latest self p"
proof -
  have g: "getitem p' k = getitem p k"
    if "k \<in> {''isdiffpos'', ''rb'', ''fwhm'', ''elong'', ''magdiff'', ''ssdistnr'',
        ''ra'', ''dec'', ''distpsnr1'', ''distpsnr2'', ''distpsnr3'', ''sgscore1'', ''sgscore2'',
        ''sgscore3'', ''candid''}" for k
    using same [OF that] by (rule getitem_cong)
  show "accept_latest self p' = accept_latest self p"
    by (simp add: accept_latest_def g)
  have 1: "gate_isdiffpos p' = gate_isdiffpos p"
    by (simp add: gate_isdiffpos_def g)
  have 2: "gate_rb self p' = gate_rb self p"
    by (simp add: gate_rb_def num_gate_def g)
  have 3: "gate_drb self p' = gate_drb self p"
  proof (cases "0 < min_drb self")
    case True
    from drb [OF True] have "getitem p' ''drb'' = getitem p ''drb''"
      by (rule getitem_cong)
    then show ?thesis by (simp add: gate_drb_def num_gate_def)
  next
    case False
    then show ?thesis by (simp add: gate_drb_def)
  qed
  have 4: "gate_image_quality self p' = gate_image_quality self p"
    by (simp add: gate_image_quality_def gate_or_def num_gate_def g
        split: sum.splits option.splits)
  have 5: "gate_sso self p' = gate_sso self p"
    by (simp add: gate_sso_def num_gate_def g)
  have 6: "gate_gal_lat self env p' = gate_gal_lat self env p"
    by (simp add: gate_gal_lat_def get_galactic_latitude_def g cong: if_cong)
  have 7: "gate_ps1_star self p' = gate_ps1_star self p"
    by (simp add: gate_ps1_star_def is_star_in_PS1_def g cong: if_cong)
  have 8: "gate_ps1_confusion self env p' = gate_ps1_confusion self env p"
    by (simp add: gate_ps1_confusion_def is_confused_in_PS1_def g cong: if_cong)
  have 9: "gate_gaia self env p' = gate_gaia self env p"
    by (simp add: gate_gaia_def is_star_in_gaia_def g cong: if_cong)
  show "\<forall>g \<in> set (latest_gates self env). g p' = g p"
    unfolding latest_gates_def using keys 1 2 3 4 5 6 7 8 9 by simp
qed

lemma apply_alert_cong:
  assumes "pps alert = p # older" and "pps alert' = p' # older"
    and "p' ''jd'' = p ''jd''"
    and "gate_keys p' = gate_keys p"
    and "\<And>k. k \<in> {''isdiffpos'', ''rb'', ''fwhm'', ''elong'', ''magdiff'', ''ssdistnr'',
        ''ra'', ''dec'', ''distpsnr1'', ''distpsnr2'', ''distpsnr3'', ''sgscore1'', ''sgscore2'',
        ''sgscore3'', ''candid''} \<Longrightarrow> p' k = p k"
    and "0 < min_drb self \<Longrightarrow> p' ''drb'' = p ''drb''"
  shows "apply_alert self env alert' lg = apply_alert self env alert lg"
proof -
  note l = latest_gates_cong [OF assms(4-6)]
  have n: "gate_ndet self alert' = gate_ndet self alert"
    using assms(1,2) by (simp add: gate_ndet_def)
  have t: "gate_tspan self alert' = gate_tspan self alert"
    using assms(1-3) by (simp add: gate_tspan_def get_values_def)
  have o: "\<forall>g \<in> set (map on_latest (latest_gates self env)). g alert' = g alert"
    using l(1) assms(1,2) by (simp add: on_latest_def)
  have a: "accept self alert' = accept self alert"
    using l(2) assms(1,2) by (simp add: accept_def on_latest_def)
  have "evaluate self env alert' = evaluate self env alert"
    unfolding evaluate_def decent_gates_def
    using n t o a by (intro evaluate_gates_cong) simp_all
  then show ?thesis by (simp add: apply_alert_evaluate)
qed

text \<open>
  C7. With \<open>min_drb\<close> at its default 0, the call gives the same result and the same
  log whatever the latest detection holds under \<open>drb\<close>: nothing (\<open>v = None\<close>), null,
  zero or any other value. The deep-real-bogus gate passes in each case.
\<close>

theorem drb_ignored_when_disabled:
  assumes "min_drb self = MIN_DRB_default"
    and "pps alert = latest # older"
  shows "apply_alert self env (alert\<lparr>pps := latest(''drb'' := v) # older\<rparr>) lg
           = apply_alert self env alert lg
         \<and> passes (gate_drb self) (latest(''drb'' := v))"
proof
  show "apply_alert self env (alert\<lparr>pps := latest(''drb'' := v) # older\<rparr>) lg
           = apply_alert self env alert lg"
  proof (rule apply_alert_cong [OF assms(2)])
    show "pps (alert\<lparr>pps := latest(''drb'' := v) # older\<rparr>) = latest(''drb'' := v) # older"
      by simp
    show "(latest(''drb'' := v)) ''jd'' = latest ''jd''" by simp
    show "gate_keys (latest(''drb'' := v)) = gate_keys latest"
      by (rule gate_keys_cong) (auto simp: incomplete_def keys_to_check_def)
    show "(latest(''drb'' := v)) k = latest k"
      if "k \<in> {''isdiffpos'', ''rb'', ''fwhm'', ''elong'', ''magdiff'', ''ssdistnr'',
        ''ra'', ''dec'', ''distpsnr1'', ''distpsnr2'', ''distpsnr3'', ''sgscore1'', ''sgscore2'',
        ''sgscore3'', ''candid''}" for k
      using that by auto
    show "(latest(''drb'' := v)) ''drb'' = latest ''drb''" if "0 < min_drb self"
      using that assms(1) by (simp add: MIN_DRB_default_def)
  qed
  show "passes (gate_drb self) (latest(''drb'' := v))"
    using assms(1) by (simp add: passes_def gate_drb_def MIN_DRB_default_def)
qed

theorem drb_ignored_when_disabled_witness:
  "apply_alert example_filter empty_sky
     (example_alert\<lparr>pps := example_latest(''drb'' \<mapsto> PNone) # [example_older]\<rparr>) []
     = apply_alert example_filter empty_sky example_alert [] \<and>
   apply_alert example_filter empty_sky
     (example_alert\<lparr>pps := example_latest(''drb'' \<mapsto> PNum 0) # [example_older]\<rparr>) []
     = apply_alert example_filter empty_sky example_alert [] \<and>
   passes (gate_drb example_filter) (example_latest(''drb'' := None))"
proof -
  have d: "min_drb example_filter = MIN_DRB_default"
    by (simp add: example_filter_def)
  have p: "pps example_alert = example_latest # [example_older]"
    by (simp add: example_alert_def)
  from drb_ignored_when_disabled [OF d p, of empty_sky "Some PNone" "[]"]
    drb_ignored_when_disabled [OF d p, of empty_sky "Some (PNum 0)" "[]"]
    drb_ignored_when_disabled [OF d p, of empty_sky None "[]"]
  show ?thesis by simp
qed


lemma evaluate_max_nbad:
  "evaluate (self\<lparr>max_nbad := n\<rparr>) env alert = evaluate self env alert"
proof -
  have "gate_ps1_star (self\<lparr>max_nbad := n\<rparr>) = gate_ps1_star self"
    by (rule ext) (simp add: gate_ps1_star_def is_star_in_PS1_def cong: if_cong)
  moreover have "gate_ps1_confusion (self\<lparr>max_nbad := n\<rparr>) env = gate_ps1_confusion self env"
    by (rule ext) (simp add: gate_ps1_confusion_def is_confused_in_PS1_def cong: if_cong)
  moreover have "gate_gaia (self\<lparr>max_nbad := n\<rparr>) env = gate_gaia self env"
  proof -
    have flags: "FLAG_PROX (self\<lparr>max_nbad := n\<rparr>) env = FLAG_PROX self env"
      "FLAG_Clean (self\<lparr>max_nbad := n\<rparr>) = FLAG_Clean self"
      "FLAG_PMRA (self\<lparr>max_nbad := n\<rparr>) env = FLAG_PMRA self env"
      "FLAG_PMDec (self\<lparr>max_nbad := n\<rparr>) env = FLAG_PMDec self env"
      "FLAG_Plx (self\<lparr>max_nbad := n\<rparr>) env = FLAG_Plx self env"
      by (simp_all add: fun_eq_iff FLAG_PROX_def FLAG_Clean_def FLAG_PMRA_def FLAG_PMDec_def
          FLAG_Plx_def)
    show ?thesis
      unfolding gate_gaia_def is_star_in_gaia_def flags
      by (simp add: fun_eq_iff cong: if_cong)
  qed
  moreover have "gate_gal_lat (self\<lparr>max_nbad := n\<rparr>) env = gate_gal_lat self env"
    by (rule ext) (simp add: gate_gal_lat_def)
  moreover have "gate_drb (self\<lparr>max_nbad := n\<rparr>) = gate_drb self"
    by (rule ext) (simp add: gate_drb_def)
  moreover have "gate_ndet (self\<lparr>max_nbad := n\<rparr>) = gate_ndet self"
    by (rule ext) (simp add: gate_ndet_def)
  moreover have "gate_tspan (self\<lparr>max_nbad := n\<rparr>) = gate_tspan self"
    by (rule ext) (simp add: gate_tspan_def)
  moreover have "accept_latest (self\<lparr>max_nbad := n\<rparr>) = accept_latest self"
    by (rule ext) (simp add: accept_latest_def)
  ultimately show ?thesis
    by (simp add: evaluate_def decent_gates_def latest_gates_def accept_def gate_rb_def
        gate_image_quality_def gate_sso_def)
qed

text \<open>
  C9. Two alerts that differ only in the value of \<open>nbad\<close> on the latest detection,
  a value that is not null in both, get the same result and the same log, and so
  for every value of the threshold \<open>max_nbad\<close>.
\<close>

theorem nbad_ignored:
  assumes "pps alert = latest # older"
    and "latest ''nbad'' = Some v" and "v \<noteq> PNone" and "v' \<noteq> PNone"
  shows "apply_alert (self\<lparr>max_nbad := n\<rparr>) env (alert\<lparr>pps := latest(''nbad'' \<mapsto> v') # older\<rparr>) lg
           = apply_alert self env alert lg"
proof -
  have "apply_alert self env (alert\<lparr>pps := latest(''nbad'' \<mapsto> v') # older\<rparr>) lg
           = apply_alert self env alert lg"
  proof (rule apply_alert_cong [OF assms(1)])
    show "pps (alert\<lparr>pps := latest(''nbad'' \<mapsto> v') # older\<rparr>) = latest(''nbad'' \<mapsto> v') # older"
      by simp
    show "(latest(''nbad'' \<mapsto> v')) ''jd'' = latest ''jd''" by simp
    show "gate_keys (latest(''nbad'' \<mapsto> v')) = gate_keys latest"
      using assms(2-4) by (intro gate_keys_cong) (auto simp: incomplete_def)
    show "(latest(''nbad'' \<mapsto> v')) k = latest k"
      if "k \<in> {''isdiffpos'', ''rb'', ''fwhm'', ''elong'', ''magdiff'', ''ssdistnr'',
        ''ra'', ''dec'', ''distpsnr1'', ''distpsnr2'', ''distpsnr3'', ''sgscore1'', ''sgscore2'',
        ''sgscore3'', ''candid''}" for k
      using that by auto
    show "(latest(''nbad'' \<mapsto> v')) ''drb'' = latest ''drb''" by simp
  qed
  then show ?thesis
    by (simp add: apply_alert_evaluate evaluate_max_nbad)
qed

theorem nbad_ignored_witness:
  "apply_alert (example_filter\<lparr>max_nbad := 3\<rparr>) empty_sky
     (example_alert\<lparr>pps := example_latest(''nbad'' \<mapsto> PNum 25) # [example_older]\<rparr>) []
     = apply_alert example_filter empty_sky example_alert []"
proof -
  have p: "pps example_alert = example_latest # [example_older]"
    by (simp add: example_alert_def)
  have v: "example_latest ''nbad'' = Some (PNum 0)"
    by (simp add: example_latest_def)
  have n: "PNum 0 \<noteq> PNone" "PNum 25 \<noteq> PNone"
    by simp_all
  from nbad_ignored [OF p v n, where self = example_filter and n = 3 and env = empty_sky
      and lg = "[]"]
  show ?thesis .
qed


section \<open>The deep-real-bogus gate without its field\<close>

text \<open>
  C10. When \<open>min_drb > 0\<close> and the alert passes the five gates before the
  deep-real-bogus gate (count, span, completeness, sign and real-bogus score) while the
  latest detection has no \<open>drb\<close>, the call raises KeyError for \<open>drb\<close>: it returns
  neither None nor tags, and it logs nothing. The completeness gate does not catch the
  case, \<open>drb\<close> not being a required field.
\<close>

theorem drb_missing_raises:
  assumes "0 < min_drb self"
    and "pps alert = latest # older"
    and "\<forall>g \<in> set (take 5 (decent_gates self env)). passes g alert"
    and "latest ''drb'' = None"
  shows "apply_alert self env alert lg = (Inl (KeyError ''drb''), lg)
         \<and> passes gate_keys latest \<and> ''drb'' \<notin> set keys_to_check"
proof -
  have "evaluate self env alert
        = evaluate_gates (drop 5 (decent_gates self env)) (accept self) alert"
    unfolding evaluate_def using assms(3) by (rule evaluate_gates_drop)
  also have "\<dots> = Inl (KeyError ''drb'')"
    using assms(1,2,4)
    by (simp add: decent_gates_def latest_gates_def on_latest_def gate_drb_def num_gate_def)
  finally have "apply_alert self env alert lg = (Inl (KeyError ''drb''), lg)"
    by (simp add: apply_alert_evaluate)
  moreover have "passes gate_keys latest"
    using assms(2,3) by (simp add: decent_gates_def latest_gates_def on_latest_def passes_def)
  moreover have "''drb'' \<notin> set keys_to_check"
    by (simp add: keys_to_check_def)
  ultimately show ?thesis by simp
qed

theorem drb_missing_raises_witness:
  "apply_alert drb_filter empty_sky example_alert [] = (Inl (KeyError ''drb''), [])"
proof -
  have d: "0 < min_drb drb_filter"
    by (simp add: drb_filter_def)
  have p: "pps example_alert = example_latest # [example_older]"
    by (simp add: example_alert_def)
  have g: "\<forall>g \<in> set (take 5 (decent_gates drb_filter empty_sky)). passes g example_alert"
    by (simp add: gate_defs method_defs example_defs drb_filter_def)
  have n: "example_latest ''drb'' = None"
    by (simp add: example_latest_def)
  from drb_missing_raises [OF d p g n, of "[]"] show ?thesis by simp
qed

text \<open>
  Passing the completeness gate alone is not enough for the exception: a detection
  without \<open>drb\<close> and with a real-bogus score below \<open>min_rb\<close> is rejected by the
  real-bogus gate, which comes first, and the call returns None.
\<close>

theorem drb_missing_not_always_raised:
  "0 < min_drb drb_filter \<and>
   pps low_rb_alert = [example_latest(''rb'' \<mapsto> PNum 0.1), example_older] \<and>
   passes gate_keys (example_latest(''rb'' \<mapsto> PNum 0.1)) \<and>
   (example_latest(''rb'' \<mapsto> PNum 0.1)) ''drb'' = None \<and>
   apply_alert drb_filter empty_sky low_rb_alert [] = (Inr None, [(INFO, ''rb'', PNum 0.1)])"
  by (simp add: apply_alert_evaluate gate_defs method_defs example_defs drb_filter_def)

section \<open>Calls in a world\<close>








lemma self_of_records [simp]: "self_of (w\<lparr>records := lg\<rparr>) = self_of w"
  by (simp add: self_of_def)






end
